theory Spec2Isabelle
  imports Complex_Main "HOL-Library.Log_Nat"
begin

section \<open>The unit catalogue of timer.hpp\<close>

text \<open>
  A \<^verbatim>\<open>std::chrono::duration<Rep, std::ratio<N, D>>\<close> type is determined by its
  representation and its period. Two duration types are the same C++ type exactly when
  both agree, so \<^verbatim>\<open>std::is_same_v\<close> on duration types is equality of these records.
\<close>

datatype rep = RepDouble | RepInt64

record duration_type =
  rep :: rep
  period_num :: int
  period_den :: int

definition picoseconds :: duration_type where
  "picoseconds = \<lparr>rep = RepDouble, period_num = 1, period_den = 1000000000000\<rparr>"

definition nanoseconds :: duration_type where
  "nanoseconds = \<lparr>rep = RepDouble, period_num = 1, period_den = 1000000000\<rparr>"

definition microseconds :: duration_type where
  "microseconds = \<lparr>rep = RepDouble, period_num = 1, period_den = 1000000\<rparr>"

definition milliseconds :: duration_type where
  "milliseconds = \<lparr>rep = RepDouble, period_num = 1, period_den = 1000\<rparr>"

definition seconds :: duration_type where
  "seconds = \<lparr>rep = RepDouble, period_num = 1, period_den = 1\<rparr>"

definition minutes :: duration_type where
  "minutes = \<lparr>rep = RepDouble, period_num = 60, period_den = 1\<rparr>"

definition hours :: duration_type where
  "hours = \<lparr>rep = RepDouble, period_num = 3600, period_den = 1\<rparr>"

definition days :: duration_type where
  "days = \<lparr>rep = RepDouble, period_num = 86400, period_den = 1\<rparr>"

definition weeks :: duration_type where
  "weeks = \<lparr>rep = RepDouble, period_num = 604800, period_den = 1\<rparr>"

definition years :: duration_type where
  "years = \<lparr>rep = RepDouble, period_num = 31556952, period_den = 1\<rparr>"

definition decades :: duration_type where
  "decades = \<lparr>rep = RepDouble, period_num = 315569520, period_den = 1\<rparr>"

definition centuries :: duration_type where
  "centuries = \<lparr>rep = RepDouble, period_num = 3155695200, period_den = 1\<rparr>"

definition millennia :: duration_type where
  "millennia = \<lparr>rep = RepDouble, period_num = 31556952000, period_den = 1\<rparr>"

text \<open>\<^verbatim>\<open>using Duration = std::chrono::duration<double, std::ratio<1, 1>>\<close>: the same type as
  \<^verbatim>\<open>timer::seconds\<close> and as the accessors' default \<^verbatim>\<open>std::chrono::duration<double>\<close>.\<close>

definition Duration :: duration_type where
  "Duration = \<lparr>rep = RepDouble, period_num = 1, period_den = 1\<rparr>"

text \<open>
  The integer-tick units are the standard library's \<^verbatim>\<open>std::chrono::nanoseconds\<close> ...
  \<^verbatim>\<open>std::chrono::hours\<close>, which main.cpp passes to \<^verbatim>\<open>getDurationView\<close>. They are not
  declared in timer.hpp; their representation is taken to be a signed 64-bit integer, as
  on the common 64-bit platforms.
\<close>

definition chrono_nanoseconds :: duration_type where
  "chrono_nanoseconds = \<lparr>rep = RepInt64, period_num = 1, period_den = 1000000000\<rparr>"

definition chrono_microseconds :: duration_type where
  "chrono_microseconds = \<lparr>rep = RepInt64, period_num = 1, period_den = 1000000\<rparr>"

definition chrono_milliseconds :: duration_type where
  "chrono_milliseconds = \<lparr>rep = RepInt64, period_num = 1, period_den = 1000\<rparr>"

definition chrono_seconds :: duration_type where
  "chrono_seconds = \<lparr>rep = RepInt64, period_num = 1, period_den = 1\<rparr>"

definition chrono_minutes :: duration_type where
  "chrono_minutes = \<lparr>rep = RepInt64, period_num = 60, period_den = 1\<rparr>"

definition chrono_hours :: duration_type where
  "chrono_hours = \<lparr>rep = RepInt64, period_num = 3600, period_den = 1\<rparr>"

definition precision_preserving_catalogue :: "duration_type list" where
  "precision_preserving_catalogue =
     [picoseconds, nanoseconds, microseconds, milliseconds, seconds, minutes, hours,
      days, weeks, years, decades, centuries, millennia]"

definition integer_tick_catalogue :: "duration_type list" where
  "integer_tick_catalogue =
     [chrono_nanoseconds, chrono_microseconds, chrono_milliseconds, chrono_seconds,
      chrono_minutes, chrono_hours]"

text \<open>The scale of a unit: seconds per unit, the value of its \<^verbatim>\<open>std::ratio\<close>.\<close>

definition scale :: "duration_type \<Rightarrow> rat" where
  "scale U = of_int (period_num U) / of_int (period_den U)"

section \<open>Binary floating point, as the platform's \<^verbatim>\<open>double\<close>\<close>

text \<open>
  A finite floating-point number is modelled by the rational number it denotes; an
  arithmetic operation computes the exact rational result and rounds it to the nearest
  number of the format, ties to even (IEEE 754, the default rounding mode), each
  operation on \<^verbatim>\<open>double\<close> being evaluated in \<^verbatim>\<open>double\<close>. The two zeros are not
  distinguished: the program never divides by a variable.
\<close>

datatype fp = Finite rat | PosInf | NegInf | NaN

record fmt =
  precision :: nat
  emin :: int
  emax :: int

definition binary32 :: fmt where
  "binary32 = \<lparr>precision = 24, emin = - 126, emax = 127\<rparr>"

definition binary64 :: fmt where
  "binary64 = \<lparr>precision = 53, emin = - 1022, emax = 1023\<rparr>"

text \<open>\<^verbatim>\<open>long double\<close> as the x87 extended format of x86-64 Linux.\<close>

definition x87_extended :: fmt where
  "x87_extended = \<lparr>precision = 64, emin = - 16382, emax = 16383\<rparr>"

text \<open>For \<open>0 < x\<close>, the integer \<open>e\<close> with \<open>2\<^sup>e \<le> x < 2\<^sup>e\<^sup>+\<^sup>1\<close>.\<close>

definition ilog2 :: "rat \<Rightarrow> int" where
  "ilog2 x = (if 1 \<le> x then int (floorlog 2 (nat \<lfloor>x\<rfloor>)) - 1
              else - int (floorlog 2 (nat (\<lceil>1 / x\<rceil> - 1))))"

definition round_half_even :: "rat \<Rightarrow> int" where
  "round_half_even q =
     (let f = \<lfloor>q\<rfloor>; r = q - of_int f
      in if r < 1 / 2 then f else if 1 / 2 < r then f + 1
         else if even f then f else f + 1)"

definition max_finite :: "fmt \<Rightarrow> rat" where
  "max_finite f = (2 ^ precision f - 1) * 2 powi (emax f - int (precision f) + 1)"

text \<open>The unit in the last place at \<open>x\<close>; below \<open>2\<^sup>e\<^sup>m\<^sup>i\<^sup>n\<close> the numbers are subnormal
  and equally spaced.\<close>

definition ulp :: "fmt \<Rightarrow> rat \<Rightarrow> rat" where
  "ulp f x = 2 powi (max (ilog2 \<bar>x\<bar>) (emin f) - int (precision f) + 1)"

definition fround :: "fmt \<Rightarrow> rat \<Rightarrow> fp" where
  "fround f x =
     (if x = 0 then Finite 0
      else let y = of_int (round_half_even (x / ulp f x)) * ulp f x
           in if max_finite f < \<bar>y\<bar> then (if 0 < x then PosInf else NegInf)
              else Finite y)"

definition representable :: "fmt \<Rightarrow> rat \<Rightarrow> bool" where
  "representable f x \<longleftrightarrow> fround f x = Finite x"

definition fneg :: "fp \<Rightarrow> fp" where
  "fneg x = (case x of Finite a \<Rightarrow> Finite (- a) | PosInf \<Rightarrow> NegInf
             | NegInf \<Rightarrow> PosInf | NaN \<Rightarrow> NaN)"

text \<open>\<^verbatim>\<open>a - b\<close>, \<^verbatim>\<open>a * b\<close> and \<^verbatim>\<open>a / b\<close> on \<^verbatim>\<open>double\<close>.\<close>

definition fsub :: "fp \<Rightarrow> fp \<Rightarrow> fp" where
  "fsub x y =
     (case (x, y) of
        (Finite a, Finite b) \<Rightarrow> fround binary64 (a - b)
      | (NaN, _) \<Rightarrow> NaN
      | (_, NaN) \<Rightarrow> NaN
      | (Finite a, i) \<Rightarrow> fneg i
      | (i, Finite b) \<Rightarrow> i
      | (i, j) \<Rightarrow> if i = j then NaN else i)"

definition fmul :: "fp \<Rightarrow> fp \<Rightarrow> fp" where
  "fmul x y =
     (case (x, y) of
        (Finite a, Finite b) \<Rightarrow> fround binary64 (a * b)
      | (NaN, _) \<Rightarrow> NaN
      | (_, NaN) \<Rightarrow> NaN
      | (Finite a, i) \<Rightarrow> if a = 0 then NaN else if 0 < a then i else fneg i
      | (i, Finite b) \<Rightarrow> if b = 0 then NaN else if 0 < b then i else fneg i
      | (i, j) \<Rightarrow> if i = j then PosInf else NegInf)"

definition fdiv :: "fp \<Rightarrow> fp \<Rightarrow> fp" where
  "fdiv x y =
     (case (x, y) of
        (Finite a, Finite b) \<Rightarrow>
          if b \<noteq> 0 then fround binary64 (a / b)
          else if a = 0 then NaN else if 0 < a then PosInf else NegInf
      | (NaN, _) \<Rightarrow> NaN
      | (_, NaN) \<Rightarrow> NaN
      | (Finite a, i) \<Rightarrow> Finite 0
      | (i, Finite b) \<Rightarrow> if 0 \<le> b then i else fneg i
      | (i, j) \<Rightarrow> NaN)"

section \<open>Numeric types and \<^verbatim>\<open>static_cast\<close>\<close>

text \<open>
  The target types \<^verbatim>\<open>Rep\<close> that \<^verbatim>\<open>TimeView::as<Rep>()\<close> tells apart:
  \<^verbatim>\<open>std::is_floating_point_v\<close> holds of \<^verbatim>\<open>float\<close>, \<^verbatim>\<open>double\<close> and \<^verbatim>\<open>long double\<close>;
  \<^verbatim>\<open>std::is_integral_v\<close> holds of \<^verbatim>\<open>bool\<close> and of the signed and unsigned integer
  types of each width (the character types convert as the integer type of their width
  and signedness). \<open>OtherT\<close> stands for every type that is none of these.
\<close>

datatype float_type = TFloat | TDouble | TLongDouble

datatype int_type = TBool | TSigned nat | TUnsigned nat

datatype cpp_type =
    DurationT duration_type
  | FloatingT float_type
  | IntegralT int_type
  | OtherT

definition format_of :: "float_type \<Rightarrow> fmt" where
  "format_of t = (case t of TFloat \<Rightarrow> binary32 | TDouble \<Rightarrow> binary64
                  | TLongDouble \<Rightarrow> x87_extended)"

text \<open>The tick count of a duration: a \<^verbatim>\<open>double\<close> or a signed 64-bit integer.\<close>

datatype number = F fp | I int

datatype error = BuildRejected | UndefinedBehaviour

definition int_min :: "int_type \<Rightarrow> int" where
  "int_min t = (case t of TBool \<Rightarrow> 0 | TSigned w \<Rightarrow> - (2 ^ (w - 1)) | TUnsigned w \<Rightarrow> 0)"

definition int_max :: "int_type \<Rightarrow> int" where
  "int_max t = (case t of TBool \<Rightarrow> 1 | TSigned w \<Rightarrow> 2 ^ (w - 1) - 1
                | TUnsigned w \<Rightarrow> 2 ^ w - 1)"

definition trunc_toward_zero :: "rat \<Rightarrow> int" where
  "trunc_toward_zero x = (if 0 \<le> x then \<lfloor>x\<rfloor> else \<lceil>x\<rceil>)"

text \<open>
  Floating-integral conversion [conv.fpint]: the fractional part is discarded; the
  behaviour is undefined if the truncated value cannot be represented in the destination
  type. For \<^verbatim>\<open>bool\<close> the conversion is a boolean conversion [conv.bool] instead: zero
  becomes \<^verbatim>\<open>false\<close>, every other value (infinities and NaN too) \<^verbatim>\<open>true\<close>.
\<close>

definition float_to_integral :: "int_type \<Rightarrow> fp \<Rightarrow> error + int" where
  "float_to_integral t x =
     (if t = TBool then Inr (if x = Finite 0 then 0 else 1)
      else case x of
             Finite q \<Rightarrow>
               if int_min t \<le> trunc_toward_zero q \<and> trunc_toward_zero q \<le> int_max t
               then Inr (trunc_toward_zero q) else Inl UndefinedBehaviour
           | _ \<Rightarrow> Inl UndefinedBehaviour)"

text \<open>Integral conversion [conv.integral]: the value modulo \<open>2\<^sup>w\<close>.\<close>

definition int_to_integral :: "int_type \<Rightarrow> int \<Rightarrow> int" where
  "int_to_integral t n =
     (case t of
        TBool \<Rightarrow> if n = 0 then 0 else 1
      | TSigned w \<Rightarrow> (n + 2 ^ (w - 1)) mod 2 ^ w - 2 ^ (w - 1)
      | TUnsigned w \<Rightarrow> n mod 2 ^ w)"

definition static_cast_integral :: "int_type \<Rightarrow> number \<Rightarrow> error + int" where
  "static_cast_integral t c =
     (case c of F x \<Rightarrow> float_to_integral t x | I n \<Rightarrow> Inr (int_to_integral t n))"

text \<open>
  Conversion to a floating-point type: a \<^verbatim>\<open>double\<close> is unchanged as \<^verbatim>\<open>double\<close> or
  \<^verbatim>\<open>long double\<close> and rounded as \<^verbatim>\<open>float\<close> (to an infinity beyond the range of
  \<^verbatim>\<open>float\<close>, as IEEE 754 hardware does); an integer is rounded to the format.
\<close>

definition static_cast_floating :: "float_type \<Rightarrow> number \<Rightarrow> fp" where
  "static_cast_floating t c =
     (case c of
        F x \<Rightarrow> (if t = TFloat then (case x of Finite q \<Rightarrow> fround binary32 q | _ \<Rightarrow> x)
                else x)
      | I n \<Rightarrow> fround (format_of t) (of_int n))"

definition int_to_double :: "int \<Rightarrow> fp" where
  "int_to_double n = fround binary64 (of_int n)"

section \<open>\<^verbatim>\<open>std::chrono::duration_cast\<close> from \<^verbatim>\<open>Duration\<close>\<close>

record chrono_duration =
  dtype :: duration_type
  count :: number

text \<open>\<^verbatim>\<open>std::ratio_divide<R1, R2>\<close>, in lowest terms with a positive denominator.\<close>

definition ratio_divide :: "int \<times> int \<Rightarrow> int \<times> int \<Rightarrow> int \<times> int" where
  "ratio_divide r1 r2 =
     (let n = fst r1 * snd r2; d = snd r1 * fst r2; g = gcd n d
      in (sgn d * n div g, \<bar>d\<bar> div g))"

definition period :: "duration_type \<Rightarrow> int \<times> int" where
  "period U = (period_num U, period_den U)"

text \<open>
  The arithmetic of \<^verbatim>\<open>duration_cast\<close> [time.duration.cast] with the conversion factor
  \<open>cf\<close> when the common representation \<^verbatim>\<open>CR\<close> is \<^verbatim>\<open>double\<close>, as it is whenever the source
  or the target counts in \<^verbatim>\<open>double\<close>: the four cases of the standard, in its order.
\<close>

definition scale_in_double :: "int \<times> int \<Rightarrow> fp \<Rightarrow> fp" where
  "scale_in_double cf c =
     (if fst cf = 1 \<and> snd cf = 1 then c
      else if snd cf = 1 then fmul c (int_to_double (fst cf))
      else if fst cf = 1 then fdiv c (int_to_double (snd cf))
      else fdiv (fmul c (int_to_double (fst cf))) (int_to_double (snd cf)))"

text \<open>The duration-in-unit-\<open>U\<close> of a \<^verbatim>\<open>Duration\<close> of \<open>D\<close> seconds, still in \<^verbatim>\<open>double\<close>.\<close>

definition in_unit :: "duration_type \<Rightarrow> fp \<Rightarrow> fp" where
  "in_unit U D = scale_in_double (ratio_divide (period Duration) (period U)) D"

text \<open>
  \<^verbatim>\<open>std::chrono::duration_cast<U>(duration)\<close> for \<^verbatim>\<open>duration\<close> of type \<^verbatim>\<open>Duration\<close>:
  the scaled count is converted to the representation of \<open>U\<close>.
\<close>

definition duration_cast :: "duration_type \<Rightarrow> fp \<Rightarrow> error + chrono_duration" where
  "duration_cast U D =
     (case rep U of
        RepDouble \<Rightarrow> Inr \<lparr>dtype = U, count = F (in_unit U D)\<rparr>
      | RepInt64 \<Rightarrow>
          (case float_to_integral (TSigned 64) (in_unit U D) of
             Inl e \<Rightarrow> Inl e
           | Inr n \<Rightarrow> Inr \<lparr>dtype = U, count = I n\<rparr>))"

section \<open>\<^verbatim>\<open>TimeView\<close> and \<^verbatim>\<open>TimeResult\<close>\<close>

datatype val =
    VDuration chrono_duration
  | VFloating float_type fp
  | VIntegral int_type int

record TimeView =
  duration :: chrono_duration

text \<open>
  \<^verbatim>\<open>TimeView::as<Rep>()\<close>: the three branches of its \<^verbatim>\<open>if constexpr\<close> chain; the last one
  is the \<^verbatim>\<open>static_assert(false, ...)\<close>.
\<close>

definition as :: "cpp_type \<Rightarrow> TimeView \<Rightarrow> error + val" where
  "as Rep v =
     (if Rep = DurationT (dtype (duration v)) then Inr (VDuration (duration v))
      else case Rep of
             FloatingT t \<Rightarrow> Inr (VFloating t (static_cast_floating t (count (duration v))))
           | IntegralT t \<Rightarrow>
               (case static_cast_integral t (count (duration v)) of
                  Inl e \<Rightarrow> Inl e
                | Inr n \<Rightarrow> Inr (VIntegral t n))
           | _ \<Rightarrow> Inl BuildRejected)"

text \<open>
  \<^verbatim>\<open>TimeResult<T>\<close>; \<^verbatim>\<open>TimeResult<void>\<close>, the specialisation without
  \<^verbatim>\<open>functionResult\<close>, is \<open>unit TimeResult\<close>. Its \<open>duration\<close> is the count of a
  \<^verbatim>\<open>Duration\<close>, in seconds.
\<close>

record 'a TimeResult =
  functionResult :: 'a
  duration :: fp

definition getDuration :: "duration_type \<Rightarrow> 'a TimeResult \<Rightarrow> error + chrono_duration" where
  "getDuration U r = duration_cast U (TimeResult.duration r)"

definition getDurationCount :: "duration_type \<Rightarrow> 'a TimeResult \<Rightarrow> error + number" where
  "getDurationCount U r =
     (case getDuration U r of Inl e \<Rightarrow> Inl e | Inr d \<Rightarrow> Inr (count d))"

definition getDurationView :: "duration_type \<Rightarrow> 'a TimeResult \<Rightarrow> error + TimeView" where
  "getDurationView U r =
     (case getDuration U r of
        Inl e \<Rightarrow> Inl e
      | Inr d \<Rightarrow> Inr \<lparr>TimeView.duration = d\<rparr>)"

text \<open>\<^verbatim>\<open>r.getDurationView<U>().as<Rep>()\<close>\<close>

definition view_as :: "duration_type \<Rightarrow> cpp_type \<Rightarrow> 'a TimeResult \<Rightarrow> error + val" where
  "view_as U Rep r =
     (case getDurationView U r of Inl e \<Rightarrow> Inl e | Inr v \<Rightarrow> as Rep v)"

section \<open>The clock and the scoped \<^verbatim>\<open>Timer\<close>\<close>

text \<open>
  What the program can read of time: the tick count \<^verbatim>\<open>Clock::now()\<close> returns
  (\<^verbatim>\<open>std::chrono::steady_clock\<close>, counting nanoseconds in a signed 64-bit integer) and
  the value \<^verbatim>\<open>MPI_Wtime()\<close> returns.
\<close>

record clocks =
  steady_now :: int
  mpi_wtime :: fp

text \<open>
  \<^verbatim>\<open>std::chrono::time_point_cast<Duration>(Clock::now())\<close>: a \<^verbatim>\<open>duration_cast\<close> from
  integer nanoseconds to \<^verbatim>\<open>double\<close> seconds.
\<close>

definition time_point_cast_Duration :: "int \<Rightarrow> fp" where
  "time_point_cast_Duration n =
     scale_in_double (ratio_divide (1, 1000000000) (period Duration)) (int_to_double n)"

text \<open>The two branches of \<^verbatim>\<open>if constexpr (BUILD_WITH_MPI_FLAG)\<close>, the same in the
  constructor and in the destructor of \<^verbatim>\<open>Timer\<close>.\<close>

definition read_time_point :: "bool \<Rightarrow> clocks \<Rightarrow> fp" where
  "read_time_point BUILD_WITH_MPI_FLAG c =
     (if BUILD_WITH_MPI_FLAG then mpi_wtime c
      else time_point_cast_Duration (steady_now c))"

text \<open>
  The \<^verbatim>\<open>Duration\<close> object a \<^verbatim>\<open>Timer\<close> points to: the local \<^verbatim>\<open>duration\<close> of the
  value-returning \<^verbatim>\<open>time\<close>, or \<^verbatim>\<open>result.duration\<close> of the void one.
\<close>

datatype slot = Local_duration | Result_duration

datatype init_kind = MoveInit | CopyInit

text \<open>What happens during a call of \<^verbatim>\<open>time\<close>, in order. \<open>TemporaryInit\<close> is the
  initialisation of the object the lambda returns when \<^verbatim>\<open>ResultType\<close> is a reference,
  \<open>ResultInit\<close> that of \<^verbatim>\<open>functionResult\<close> in the record.\<close>

datatype event =
    ClockRead fp
  | CallableInvoked
  | CallableFinished
  | TemporaryInit init_kind
  | SlotWrite slot fp
  | ResultInit init_kind

record 'u world =
  clocks :: clocks
  user :: 'u
  trace :: "event list"

record Timer =
  m_StartTimePoint :: fp
  m_TimeReference :: slot

text \<open>\<^verbatim>\<open>Timer::Timer(Duration *duration)\<close>\<close>

definition Timer_ctor :: "bool \<Rightarrow> slot \<Rightarrow> 'u world \<Rightarrow> Timer \<times> 'u world" where
  "Timer_ctor BUILD_WITH_MPI_FLAG ref w =
     (let t = read_time_point BUILD_WITH_MPI_FLAG (clocks w)
      in (\<lparr>m_StartTimePoint = t, m_TimeReference = ref\<rparr>,
          w\<lparr>trace := trace w @ [ClockRead t]\<rparr>))"

text \<open>
  \<^verbatim>\<open>Timer::~Timer()\<close>: the value assigned through \<^verbatim>\<open>m_TimeReference\<close> is returned as the
  new content of the slot, and the write is logged.
\<close>

definition Timer_dtor :: "bool \<Rightarrow> Timer \<Rightarrow> 'u world \<Rightarrow> fp \<times> 'u world" where
  "Timer_dtor BUILD_WITH_MPI_FLAG timer w =
     (let endTimePoint = read_time_point BUILD_WITH_MPI_FLAG (clocks w);
          d = fsub endTimePoint (m_StartTimePoint timer)
      in (d, w\<lparr>trace := trace w @ [ClockRead endTimePoint, SlotWrite (m_TimeReference timer) d]\<rparr>))"

section \<open>The top-level \<^verbatim>\<open>time\<close>\<close>

text \<open>
  The callable is any zero-argument C++ callable: it may change the user's state, let
  time pass, return a value or raise; \<open>None\<close> is a callable that never finishes.
\<close>

datatype ('a, 'e) outcome = Returned 'a | Raised 'e

type_synonym ('a, 'e, 'u) callable =
  "clocks \<times> 'u \<Rightarrow> (('a, 'e) outcome \<times> clocks \<times> 'u) option"

definition invoke :: "('a, 'e, 'u) callable \<Rightarrow> 'u world \<Rightarrow> (('a, 'e) outcome \<times> 'u world) option" where
  "invoke toTime w =
     (case toTime (clocks w, user w) of
        None \<Rightarrow> None
      | Some (out, c, u) \<Rightarrow>
          Some (out, \<lparr>clocks = c, user = u,
                      trace = trace w @ [CallableInvoked, CallableFinished]\<rparr>))"

text \<open>
  The result type \<^verbatim>\<open>ResultType = std::invoke_result_t<FuncToTime>\<close> of a callable that the
  value-returning overload accepts: an object type \<^verbatim>\<open>T\<close>, or a reference type \<^verbatim>\<open>const T &\<close>
  or \<^verbatim>\<open>T &&\<close>. (With \<^verbatim>\<open>T &\<close> the definition of \<^verbatim>\<open>result\<close> does not compile, since the
  lambda returns by value.) For an object type, initialising \<^verbatim>\<open>functionResult\<close> from the
  xvalue \<^verbatim>\<open>static_cast<ResultType &&>(result)\<close> selects the move constructor when the type
  has one that accepts it (\<open>Movable\<close>), and the copy constructor otherwise (\<open>CopyOnly\<close>).
\<close>

datatype move_support = Movable | CopyOnly

datatype result_type = ByValue move_support | ConstReference | RvalueReference

definition init_from_xvalue :: "move_support \<Rightarrow> init_kind" where
  "init_from_xvalue m = (case m of Movable \<Rightarrow> MoveInit | CopyOnly \<Rightarrow> CopyInit)"

text \<open>
  What \<^verbatim>\<open>functionResult\<close> is once \<^verbatim>\<open>time\<close> has returned: an object that the record holds,
  or a reference to a temporary of \<^verbatim>\<open>time\<close> whose lifetime has ended; reading through
  such a reference is undefined.
\<close>

datatype 'a captured = Object 'a | DanglingReference

text \<open>
  \<^verbatim>\<open>return toTime();\<close> in the lambda, whose deduced return type is never a reference. A
  prvalue initialises \<^verbatim>\<open>result\<close> directly. From a \<^verbatim>\<open>const T &\<close> the returned object is
  copied, from a \<^verbatim>\<open>T &&\<close> it is moved; it is a temporary of \<^verbatim>\<open>time\<close>, and the reference
  \<^verbatim>\<open>result\<close> is bound to it.
\<close>

definition lambda_return :: "result_type \<Rightarrow> event list" where
  "lambda_return rt =
     (case rt of
        ByValue _ \<Rightarrow> []
      | ConstReference \<Rightarrow> [TemporaryInit CopyInit]
      | RvalueReference \<Rightarrow> [TemporaryInit MoveInit])"

text \<open>
  \<^verbatim>\<open>TimeResult<ResultType>{static_cast<ResultType &&>(result), duration}\<close>: a member of
  object type is initialised from the xvalue; a member of reference type is bound to
  what \<^verbatim>\<open>result\<close> refers to, the temporary that ends with the call of \<^verbatim>\<open>time\<close>.
\<close>

definition record_init :: "result_type \<Rightarrow> 'a \<Rightarrow> 'a captured \<times> event list" where
  "record_init rt result =
     (case rt of
        ByValue ms \<Rightarrow> (Object result, [ResultInit (init_from_xvalue ms)])
      | ConstReference \<Rightarrow> (DanglingReference, [])
      | RvalueReference \<Rightarrow> (DanglingReference, []))"

text \<open>
  \<^verbatim>\<open>NonVoidTimeResult<FuncToTime> time(FuncToTime toTime)\<close>. The \<^verbatim>\<open>Timer\<close> is a local of
  the immediately invoked lambda, so its destructor runs when the lambda is left, by
  \<^verbatim>\<open>return\<close> (after the returned object is initialised) or by an exception; the record
  is built only after a \<^verbatim>\<open>return\<close>. The local \<^verbatim>\<open>Duration duration;\<close> holds no value
  until the destructor has written it: \<open>d\<close> below is its content from then on.
\<close>

definition time_nonvoid ::
  "bool \<Rightarrow> result_type \<Rightarrow> ('a, 'e, 'u) callable \<Rightarrow> 'u world
     \<Rightarrow> (('a captured TimeResult, 'e) outcome \<times> 'u world) option" where
  "time_nonvoid BUILD_WITH_MPI_FLAG rt toTime w =
     (let (timer, w1) = Timer_ctor BUILD_WITH_MPI_FLAG Local_duration w
      in case invoke toTime w1 of
           None \<Rightarrow> None
         | Some (out, w2) \<Rightarrow>
             (case out of
                Raised e \<Rightarrow>
                  (let (d, w3) = Timer_dtor BUILD_WITH_MPI_FLAG timer w2
                   in Some (Raised e, w3))
              | Returned result \<Rightarrow>
                  (let (d, w3) = Timer_dtor BUILD_WITH_MPI_FLAG timer
                                   (w2\<lparr>trace := trace w2 @ lambda_return rt\<rparr>);
                       (held, inits) = record_init rt result
                   in Some (Returned \<lparr>functionResult = held, duration = d\<rparr>,
                            w3\<lparr>trace := trace w3 @ inits\<rparr>))))"

text \<open>\<^verbatim>\<open>VoidTimeResult<FuncToTime> time(FuncToTime toTime)\<close>; \<^verbatim>\<open>TimeResult<void> result{}\<close>
  starts with a zero duration.\<close>

definition time_void ::
  "bool \<Rightarrow> (unit, 'e, 'u) callable \<Rightarrow> 'u world
     \<Rightarrow> ((unit TimeResult, 'e) outcome \<times> 'u world) option" where
  "time_void BUILD_WITH_MPI_FLAG toTime w =
     (let result = \<lparr>functionResult = (), duration = Finite 0\<rparr>;
          (timer, w1) = Timer_ctor BUILD_WITH_MPI_FLAG Result_duration w
      in case invoke toTime w1 of
           None \<Rightarrow> None
         | Some (out, w2) \<Rightarrow>
             (let (d, w3) = Timer_dtor BUILD_WITH_MPI_FLAG timer w2;
                  result = result\<lparr>duration := d\<rparr>
              in case out of
                   Raised e \<Rightarrow> Some (Raised e, w3)
                 | Returned _ \<Rightarrow> Some (Returned result, w3)))"

subsection \<open>Callables in the manner of main.cpp\<close>

text \<open>
  \<^verbatim>\<open>doLongTaskWithReturn\<close> sleeps and then returns a value; as a callable it lets \<open>ns\<close>
  nanoseconds pass on the steady clock and returns \<open>v\<close>. \<open>failing_task\<close> raises \<open>x\<close>
  after the same wait instead.
\<close>

definition sleeping_task :: "int \<Rightarrow> 'a \<Rightarrow> ('a, 'e, 'u) callable" where
  "sleeping_task ns v = (\<lambda>(c, u). Some (Returned v, c\<lparr>steady_now := steady_now c + ns\<rparr>, u))"

definition failing_task :: "int \<Rightarrow> 'e \<Rightarrow> ('a, 'e, 'u) callable" where
  "failing_task ns x = (\<lambda>(c, u). Some (Raised x, c\<lparr>steady_now := steady_now c + ns\<rparr>, u))"

text \<open>A world whose steady clock stands at tick \<open>n\<close>, with an empty trace.\<close>

definition world_at :: "int \<Rightarrow> unit world" where
  "world_at n = \<lparr>clocks = \<lparr>steady_now = n, mpi_wtime = Finite 0\<rparr>, user = (), trace = []\<rparr>"

section \<open>The declaration of \<^verbatim>\<open>class Timer\<close>\<close>

text \<open>
  Who may create or copy a \<^verbatim>\<open>Timer\<close> is decided at build time, from the declaration of
  the class: the special member functions it declares, its other constructors with
  their access, and its friends.
\<close>

datatype access = Public | Private

datatype special_member = CopyCtor | MoveCtor | CopyAssign | MoveAssign | Dtor

datatype definition_kind = UserProvided | Defaulted | Deleted

record class_decl =
  declared :: "(special_member \<times> access \<times> definition_kind) list"
  constructors :: "(string \<times> access) list"
  friends :: "string list"
  members_copyable :: bool

definition Timer_class :: class_decl where
  "Timer_class =
     \<lparr>declared = [(Dtor, Public, UserProvided)],
      constructors = [(''Duration *'', Private)],
      friends = [''NonVoidTimeResult<FuncToTime> time(FuncToTime)'',
                  ''VoidTimeResult<FuncToTime> time(FuncToTime)''],
      members_copyable = True\<rparr>"

definition user_declares :: "class_decl \<Rightarrow> special_member \<Rightarrow> bool" where
  "user_declares c m \<longleftrightarrow> map_of (declared c) m \<noteq> None"

text \<open>
  [class.copy.ctor]: a class that declares no copy constructor gets an implicit public
  one, deleted if the class declares a move constructor or move assignment operator (or
  has a member that cannot be copied), defaulted otherwise. It gets an implicit move
  constructor only if it declares no copy constructor, copy assignment operator, move
  assignment operator or destructor.
\<close>

definition copy_ctor :: "class_decl \<Rightarrow> access \<times> definition_kind" where
  "copy_ctor c =
     (case map_of (declared c) CopyCtor of
        Some d \<Rightarrow> d
      | None \<Rightarrow>
          (Public,
           if user_declares c MoveCtor \<or> user_declares c MoveAssign \<or> \<not> members_copyable c
           then Deleted else Defaulted))"

definition move_ctor :: "class_decl \<Rightarrow> (access \<times> definition_kind) option" where
  "move_ctor c =
     (case map_of (declared c) MoveCtor of
        Some d \<Rightarrow> Some d
      | None \<Rightarrow>
          if user_declares c CopyCtor \<or> user_declares c CopyAssign
             \<or> user_declares c MoveAssign \<or> user_declares c Dtor
          then None else Some (Public, Defaulted))"

text \<open>Code named \<open>who\<close> may use a member of access \<open>a\<close>.\<close>

definition accessible :: "class_decl \<Rightarrow> string \<Rightarrow> access \<Rightarrow> bool" where
  "accessible c who a \<longleftrightarrow> a = Public \<or> who \<in> set (friends c)"

definition usable :: "class_decl \<Rightarrow> string \<Rightarrow> access \<times> definition_kind \<Rightarrow> bool" where
  "usable c who d \<longleftrightarrow> accessible c who (fst d) \<and> snd d \<noteq> Deleted"

text \<open>\<^verbatim>\<open>Timer t(&slot)\<close> compiles in \<open>who\<close>.\<close>

definition can_construct :: "class_decl \<Rightarrow> string \<Rightarrow> string \<Rightarrow> bool" where
  "can_construct c who params \<longleftrightarrow>
     (case map_of (constructors c) params of
        None \<Rightarrow> False
      | Some a \<Rightarrow> accessible c who a)"

text \<open>\<^verbatim>\<open>Timer b(a)\<close> for an lvalue \<^verbatim>\<open>a\<close> compiles in \<open>who\<close>.\<close>

definition can_copy :: "class_decl \<Rightarrow> string \<Rightarrow> bool" where
  "can_copy c who \<longleftrightarrow> usable c who (copy_ctor c)"

text \<open>\<^verbatim>\<open>Timer b(std::move(a))\<close> compiles in \<open>who\<close>: overload resolution takes the move
  constructor if one is declared, and the copy constructor otherwise.\<close>

definition can_move_construct :: "class_decl \<Rightarrow> string \<Rightarrow> bool" where
  "can_move_construct c who \<longleftrightarrow>
     (case move_ctor c of
        Some d \<Rightarrow> usable c who d
      | None \<Rightarrow> usable c who (copy_ctor c))"

section \<open>Rounding: the exponent, the nearest integer, the error\<close>

lemma of_nat_succ_le_pow2:
  assumes "n < 2 ^ k"
  shows "(of_nat n :: rat) + 1 \<le> 2 ^ k"
proof -
  from assms have "Suc n \<le> 2 ^ k" by simp
  then have "(of_nat (Suc n) :: rat) \<le> of_nat (2 ^ k)" by (simp only: of_nat_le_iff)
  then show ?thesis by simp
qed

lemma pow2_le_of_nat:
  assumes "2 ^ k \<le> n"
  shows "(2::rat) ^ k \<le> of_nat n"
proof -
  from assms have "(of_nat (2 ^ k) :: rat) \<le> of_nat n" by (simp only: of_nat_le_iff)
  then show ?thesis by simp
qed

lemma floorlog2_bounds_rat:
  assumes "1 \<le> n"
  shows "(2::rat) ^ (floorlog 2 n - 1) \<le> of_nat n" 
    and "(of_nat n :: rat) + 1 \<le> 2 ^ floorlog 2 n"
    and "1 \<le> floorlog 2 n"
proof -
  have n0: "0 < n" using assms by simp
  have two: "(1::nat) < 2" by simp
  note b = floorlog_bounds[OF n0 two]
  show "(2::rat) ^ (floorlog 2 n - 1) \<le> of_nat n"
    using b by (intro pow2_le_of_nat) blast
  show "(of_nat n :: rat) + 1 \<le> 2 ^ floorlog 2 n"
    using b by (intro of_nat_succ_le_pow2) blast
  show "1 \<le> floorlog 2 n"
    using n0 by (simp add: floorlog_def)
qed

lemma ilog2_bounds_ge1:
  assumes "1 \<le> x"
  shows "2 powi (ilog2 x) \<le> x \<and> x < 2 powi (ilog2 x + 1)"
proof -
  define n where "n = nat \<lfloor>x\<rfloor>"
  define k where "k = floorlog 2 n"
  have fl: "1 \<le> \<lfloor>x\<rfloor>" using assms by (simp add: le_floor_iff)
  then have n1: "1 \<le> n" unfolding n_def by linarith
  have nfl: "(of_nat n :: rat) = of_int \<lfloor>x\<rfloor>"
    unfolding n_def using fl by simp
  have "of_int \<lfloor>x\<rfloor> \<le> x" "x < of_int \<lfloor>x\<rfloor> + 1" by linarith+
  then have nx: "of_nat n \<le> x" "x < of_nat n + 1" unfolding nfl by blast+
  note b = floorlog2_bounds_rat[OF n1, folded k_def]
  have e: "ilog2 x = int k - 1" unfolding ilog2_def k_def n_def using assms by (simp only: if_True)
  have lo: "(2::rat) ^ (k - 1) \<le> x" using b(1) nx(1) by linarith
  have hi: "x < (2::rat) ^ k" using b(2) nx(2) by linarith
  have "int k - 1 = int (k - 1)" using b(3) by linarith
  then have p1: "(2::rat) powi (int k - 1) = 2 ^ (k - 1)" by (simp only: power_int_of_nat)
  have "int k - 1 + 1 = int k" by simp
  then have p2: "(2::rat) powi (int k - 1 + 1) = 2 ^ k" by (simp only: power_int_of_nat)
  show ?thesis unfolding e p1 p2 using lo hi by blast
qed

lemma ilog2_bounds_lt1:
  assumes "0 < x" and "x < 1"
  shows "2 powi (ilog2 x) \<le> x \<and> x < 2 powi (ilog2 x + 1)"
proof -
  define m where "m = \<lceil>1 / x\<rceil>"
  define n where "n = nat (m - 1)"
  define k where "k = floorlog 2 n"
  have inv: "1 < 1 / x" using assms by (simp add: less_divide_eq)
  have c1: "1 / x \<le> of_int m" unfolding m_def by (rule le_of_int_ceiling)
  have c2: "of_int m - 1 < 1 / x" unfolding m_def by linarith
  have "(1::rat) < of_int m" using inv c1 by linarith
  then have m2: "2 \<le> m" by linarith
  then have n1: "1 \<le> n" unfolding n_def by linarith
  have mn: "(of_nat n :: rat) = of_int m - 1" unfolding n_def using m2 by simp
  note b = floorlog2_bounds_rat[OF n1, folded k_def]
  have e: "ilog2 x = - int k" unfolding ilog2_def k_def n_def m_def using assms(2) by simp
  have pk: "(0::rat) < 2 ^ k" by simp
  have pk1: "(0::rat) < 2 ^ (k - 1)" by simp
  have "1 / x \<le> 2 ^ k" using b(2) c1 mn by linarith
  then have "1 \<le> 2 ^ k * x" using assms(1) by (simp add: divide_le_eq)
  then have lo: "1 / 2 ^ k \<le> x" using pk by (simp add: divide_le_eq mult.commute)
  have "2 ^ (k - 1) < 1 / x" using b(1) c2 mn by linarith
  then have "2 ^ (k - 1) * x < 1" using assms(1) by (simp add: less_divide_eq)
  then have hi: "x < 1 / 2 ^ (k - 1)" using pk1 by (simp add: less_divide_eq mult.commute)
  have p1: "(2::rat) powi (- int k) = 1 / 2 ^ k"
    by (simp only: power_int_minus_divide power_int_of_nat)
  have "- int k + 1 = - int (k - 1)" using b(3) by linarith
  then have p2: "(2::rat) powi (- int k + 1) = 1 / 2 ^ (k - 1)"
    by (simp only: power_int_minus_divide power_int_of_nat)
  show ?thesis unfolding e p1 p2 using lo hi by blast
qed

lemma ilog2_bounds:
  assumes "0 < x"
  shows "2 powi (ilog2 x) \<le> x" and "x < 2 powi (ilog2 x + 1)"
proof -
  have both: "2 powi (ilog2 x) \<le> x \<and> x < 2 powi (ilog2 x + 1)"
  proof (cases "1 \<le> x")
    case True
    then show ?thesis by (rule ilog2_bounds_ge1)
  next
    case False
    then have "x < 1" by simp
    with assms show ?thesis by (rule ilog2_bounds_lt1)
  qed
  show "2 powi (ilog2 x) \<le> x" using both by blast
  show "x < 2 powi (ilog2 x + 1)" using both by blast
qed

lemma ilog2_eqI:
  assumes "2 powi e \<le> x" and "x < 2 powi (e + 1)"
  shows "ilog2 x = e"
proof -
  have "(0::rat) < 2 powi e" by simp
  then have pos: "0 < x" using assms(1) by linarith
  note b = ilog2_bounds[OF pos]
  have lt1: "(2::rat) powi e < 2 powi (ilog2 x + 1)" using assms(1) b(2) by linarith
  have 1: "e < ilog2 x + 1"
  proof (rule ccontr)
    assume "\<not> e < ilog2 x + 1"
    then have "ilog2 x + 1 \<le> e" by simp
    then have "(2::rat) powi (ilog2 x + 1) \<le> 2 powi e"
      by (intro power_int_increasing) simp_all
    with lt1 show False by linarith
  qed
  have lt2: "(2::rat) powi (ilog2 x) < 2 powi (e + 1)" using assms(2) b(1) by linarith
  have 2: "ilog2 x < e + 1"
  proof (rule ccontr)
    assume "\<not> ilog2 x < e + 1"
    then have "e + 1 \<le> ilog2 x" by simp
    then have "(2::rat) powi (e + 1) \<le> 2 powi (ilog2 x)"
      by (intro power_int_increasing) simp_all
    with lt2 show False by linarith
  qed
  show ?thesis using 1 2 by linarith
qed

lemma round_half_even_cases:
  "round_half_even q = \<lfloor>q\<rfloor> \<and> q - of_int \<lfloor>q\<rfloor> \<le> 1 / 2
   \<or> round_half_even q = \<lfloor>q\<rfloor> + 1 \<and> 1 / 2 \<le> q - of_int \<lfloor>q\<rfloor>"
  unfolding round_half_even_def Let_def by (simp only: split: if_split) linarith

lemma round_half_even_error: "\<bar>of_int (round_half_even q) - q\<bar> \<le> 1 / 2"
proof -
  have fb: "of_int \<lfloor>q\<rfloor> \<le> q" "q < of_int \<lfloor>q\<rfloor> + 1" by linarith+
  from round_half_even_cases[of q] show ?thesis
  proof (elim disjE conjE)
    assume a: "round_half_even q = \<lfloor>q\<rfloor>" "q - of_int \<lfloor>q\<rfloor> \<le> 1 / 2"
    show ?thesis unfolding a(1) using a(2) fb by linarith
  next
    assume a: "round_half_even q = \<lfloor>q\<rfloor> + 1" "1 / 2 \<le> q - of_int \<lfloor>q\<rfloor>"
    have "of_int (\<lfloor>q\<rfloor> + 1) = (of_int \<lfloor>q\<rfloor> :: rat) + 1" by simp
    then show ?thesis unfolding a(1) using a(2) fb by linarith
  qed
qed

lemma round_half_even_of_int: "round_half_even (of_int n) = n"
  by (simp add: round_half_even_def)

lemma fround_eqI:
  assumes lo: "2 powi e \<le> \<bar>x\<bar>" and hi: "\<bar>x\<bar> < 2 powi (e + 1)"
    and em: "emin f \<le> e"
    and m: "round_half_even (x / 2 powi (e - int (precision f) + 1)) = m"
    and mx: "\<bar>of_int m * 2 powi (e - int (precision f) + 1)\<bar> \<le> max_finite f"
  shows "fround f x = Finite (of_int m * 2 powi (e - int (precision f) + 1))"
proof -
  have "(0::rat) < 2 powi e" by simp
  then have x0: "x \<noteq> 0" using lo by linarith
  have il: "ilog2 \<bar>x\<bar> = e" using lo hi by (rule ilog2_eqI)
  have u: "ulp f x = 2 powi (e - int (precision f) + 1)"
    unfolding ulp_def il using em by (simp only: max_absorb1)
  show ?thesis
    unfolding fround_def u Let_def m using x0 mx by simp
qed

lemma round_half_even_nearI:
  assumes "\<bar>q - of_int m\<bar> < 1 / 2"
  shows "round_half_even q = m"
proof -
  have "\<bar>(of_int (round_half_even q) :: rat) - of_int m\<bar> < 1"
    using round_half_even_error[of q] assms by linarith
  then have "\<bar>(of_int (round_half_even q - m) :: rat)\<bar> < 1" by simp
  then have "\<bar>round_half_even q - m\<bar> < 1"
    by (metis of_int_abs of_int_less_1_iff)
  then show ?thesis by linarith
qed

lemma fround_nearI:
  assumes lo: "2 powi e \<le> \<bar>x\<bar>" and hi: "\<bar>x\<bar> < 2 powi (e + 1)"
    and em: "emin f \<le> e"
    and m: "\<bar>x / 2 powi (e - int (precision f) + 1) - of_int m\<bar> < 1 / 2"
    and mx: "\<bar>of_int m * 2 powi (e - int (precision f) + 1)\<bar> \<le> max_finite f"
  shows "fround f x = Finite (of_int m * 2 powi (e - int (precision f) + 1))"
  using lo hi em round_half_even_nearI[OF m] mx by (rule fround_eqI)

lemma fround_0: "fround f 0 = Finite 0"
  by (simp add: fround_def)

lemma round_half_even_nonneg:
  assumes "0 \<le> q"
  shows "0 \<le> round_half_even q"
proof -
  have "0 \<le> \<lfloor>q\<rfloor>" using assms by simp
  then show ?thesis using round_half_even_cases[of q] by linarith
qed

lemma round_half_even_nonpos:
  assumes "q \<le> 0"
  shows "round_half_even q \<le> 0"
proof (cases "q = 0")
  case True
  then show ?thesis using round_half_even_of_int[of 0] by simp
next
  case False
  then have q: "q < 0" using assms by simp
  then have fl: "\<lfloor>q\<rfloor> \<le> - 1" by (simp add: floor_le_iff)
  from round_half_even_error[of q] have "of_int (round_half_even q) \<le> q + 1 / 2" by linarith
  then have "(of_int (round_half_even q) :: rat) < 1" using q by linarith
  then show ?thesis by simp
qed

lemma ulp_pos: "0 < ulp f x"
  by (simp add: ulp_def)

lemma fround_sign:
  assumes "fround f x = Finite y"
  shows "(0 \<le> x \<longrightarrow> 0 \<le> y) \<and> (x \<le> 0 \<longrightarrow> y \<le> 0)"
proof (cases "x = 0")
  case True
  then show ?thesis using assms by (simp add: fround_def)
next
  case False
  then have y: "y = of_int (round_half_even (x / ulp f x)) * ulp f x"
    using assms by (simp add: fround_def Let_def split: if_splits)
  show ?thesis
  proof (intro conjI impI)
    assume "0 \<le> x"
    then have "0 \<le> x / ulp f x" using ulp_pos[of f x] by simp
    then have "0 \<le> round_half_even (x / ulp f x)" by (rule round_half_even_nonneg)
    then show "0 \<le> y" unfolding y using ulp_pos[of f x] by simp
  next
    assume "x \<le> 0"
    then have "x / ulp f x \<le> 0" using ulp_pos[of f x] by (simp add: divide_le_0_iff)
    then have "round_half_even (x / ulp f x) \<le> 0" by (rule round_half_even_nonpos)
    then show "y \<le> 0" unfolding y using ulp_pos[of f x] by (simp add: mult_le_0_iff)
  qed
qed

lemma int_to_double_1000: "int_to_double 1000 = Finite 1000"
  unfolding int_to_double_def
  using fround_nearI[where f = binary64 and e = 9 and m = 8796093022208000 and x = "1000"]
  by (simp add: binary64_def max_finite_def)

lemma int_to_double_1000000: "int_to_double 1000000 = Finite 1000000"
  unfolding int_to_double_def
  using fround_nearI[where f = binary64 and e = 19 and m = 8589934592000000 and x = "1000000"]
  by (simp add: binary64_def max_finite_def)

lemma int_to_double_1000000000: "int_to_double 1000000000 = Finite 1000000000"
  unfolding int_to_double_def
  using fround_nearI[where f = binary64 and e = 29 and m = 8388608000000000 and x = "1000000000"]
  by (simp add: binary64_def max_finite_def)

lemma int_to_double_1000000000000: "int_to_double 1000000000000 = Finite 1000000000000"
  unfolding int_to_double_def
  using fround_nearI[where f = binary64 and e = 39 and m = 8192000000000000 and x = "1000000000000"]
  by (simp add: binary64_def max_finite_def)

lemma int_to_double_60: "int_to_double 60 = Finite 60"
  unfolding int_to_double_def
  using fround_nearI[where f = binary64 and e = 5 and m = 8444249301319680 and x = "60"]
  by (simp add: binary64_def max_finite_def)

lemma int_to_double_3600: "int_to_double 3600 = Finite 3600"
  unfolding int_to_double_def
  using fround_nearI[where f = binary64 and e = 11 and m = 7916483719987200 and x = "3600"]
  by (simp add: binary64_def max_finite_def)

lemma int_to_double_86400: "int_to_double 86400 = Finite 86400"
  unfolding int_to_double_def
  using fround_nearI[where f = binary64 and e = 16 and m = 5937362789990400 and x = "86400"]
  by (simp add: binary64_def max_finite_def)

lemma int_to_double_604800: "int_to_double 604800 = Finite 604800"
  unfolding int_to_double_def
  using fround_nearI[where f = binary64 and e = 19 and m = 5195192441241600 and x = "604800"]
  by (simp add: binary64_def max_finite_def)

lemma int_to_double_31556952: "int_to_double 31556952 = Finite 31556952"
  unfolding int_to_double_def
  using fround_nearI[where f = binary64 and e = 24 and m = 8471004800090112 and x = "31556952"]
  by (simp add: binary64_def max_finite_def)

lemma int_to_double_315569520: "int_to_double 315569520 = Finite 315569520"
  unfolding int_to_double_def
  using fround_nearI[where f = binary64 and e = 28 and m = 5294378000056320 and x = "315569520"]
  by (simp add: binary64_def max_finite_def)

lemma int_to_double_3155695200: "int_to_double 3155695200 = Finite 3155695200"
  unfolding int_to_double_def
  using fround_nearI[where f = binary64 and e = 31 and m = 6617972500070400 and x = "3155695200"]
  by (simp add: binary64_def max_finite_def)

lemma int_to_double_31556952000: "int_to_double 31556952000 = Finite 31556952000"
  unfolding int_to_double_def
  using fround_nearI[where f = binary64 and e = 34 and m = 8272465625088000 and x = "31556952000"]
  by (simp add: binary64_def max_finite_def)

lemmas int_to_double_consts =
  int_to_double_1000
  int_to_double_1000000
  int_to_double_1000000000
  int_to_double_1000000000000
  int_to_double_60
  int_to_double_3600
  int_to_double_86400
  int_to_double_604800
  int_to_double_31556952
  int_to_double_315569520
  int_to_double_3155695200
  int_to_double_31556952000

section \<open>The catalogue units in \<^verbatim>\<open>double\<close> arithmetic\<close>

lemma scale_picoseconds: "scale picoseconds = 1 / 1000000000000"
  by (simp add: scale_def picoseconds_def)

lemma in_unit_picoseconds: "in_unit picoseconds (Finite d) = fround binary64 (d * 1000000000000)"
  by (simp add: in_unit_def period_def Duration_def picoseconds_def ratio_divide_def
      scale_in_double_def int_to_double_consts fmul_def fdiv_def)

lemma scale_nanoseconds: "scale nanoseconds = 1 / 1000000000"
  by (simp add: scale_def nanoseconds_def)

lemma in_unit_nanoseconds: "in_unit nanoseconds (Finite d) = fround binary64 (d * 1000000000)"
  by (simp add: in_unit_def period_def Duration_def nanoseconds_def ratio_divide_def
      scale_in_double_def int_to_double_consts fmul_def fdiv_def)

lemma scale_microseconds: "scale microseconds = 1 / 1000000"
  by (simp add: scale_def microseconds_def)

lemma in_unit_microseconds: "in_unit microseconds (Finite d) = fround binary64 (d * 1000000)"
  by (simp add: in_unit_def period_def Duration_def microseconds_def ratio_divide_def
      scale_in_double_def int_to_double_consts fmul_def fdiv_def)

lemma scale_milliseconds: "scale milliseconds = 1 / 1000"
  by (simp add: scale_def milliseconds_def)

lemma in_unit_milliseconds: "in_unit milliseconds (Finite d) = fround binary64 (d * 1000)"
  by (simp add: in_unit_def period_def Duration_def milliseconds_def ratio_divide_def
      scale_in_double_def int_to_double_consts fmul_def fdiv_def)

lemma scale_seconds: "scale seconds = 1"
  by (simp add: scale_def seconds_def)

lemma in_unit_seconds: "in_unit seconds (Finite d) = Finite d"
  by (simp add: in_unit_def period_def Duration_def seconds_def ratio_divide_def
      scale_in_double_def int_to_double_consts fmul_def fdiv_def)

lemma scale_minutes: "scale minutes = 60"
  by (simp add: scale_def minutes_def)

lemma in_unit_minutes: "in_unit minutes (Finite d) = fround binary64 (d / 60)"
  by (simp add: in_unit_def period_def Duration_def minutes_def ratio_divide_def
      scale_in_double_def int_to_double_consts fmul_def fdiv_def)

lemma scale_hours: "scale hours = 3600"
  by (simp add: scale_def hours_def)

lemma in_unit_hours: "in_unit hours (Finite d) = fround binary64 (d / 3600)"
  by (simp add: in_unit_def period_def Duration_def hours_def ratio_divide_def
      scale_in_double_def int_to_double_consts fmul_def fdiv_def)

lemma scale_days: "scale days = 86400"
  by (simp add: scale_def days_def)

lemma in_unit_days: "in_unit days (Finite d) = fround binary64 (d / 86400)"
  by (simp add: in_unit_def period_def Duration_def days_def ratio_divide_def
      scale_in_double_def int_to_double_consts fmul_def fdiv_def)

lemma scale_weeks: "scale weeks = 604800"
  by (simp add: scale_def weeks_def)

lemma in_unit_weeks: "in_unit weeks (Finite d) = fround binary64 (d / 604800)"
  by (simp add: in_unit_def period_def Duration_def weeks_def ratio_divide_def
      scale_in_double_def int_to_double_consts fmul_def fdiv_def)

lemma scale_years: "scale years = 31556952"
  by (simp add: scale_def years_def)

lemma in_unit_years: "in_unit years (Finite d) = fround binary64 (d / 31556952)"
  by (simp add: in_unit_def period_def Duration_def years_def ratio_divide_def
      scale_in_double_def int_to_double_consts fmul_def fdiv_def)

lemma scale_decades: "scale decades = 315569520"
  by (simp add: scale_def decades_def)

lemma in_unit_decades: "in_unit decades (Finite d) = fround binary64 (d / 315569520)"
  by (simp add: in_unit_def period_def Duration_def decades_def ratio_divide_def
      scale_in_double_def int_to_double_consts fmul_def fdiv_def)

lemma scale_centuries: "scale centuries = 3155695200"
  by (simp add: scale_def centuries_def)

lemma in_unit_centuries: "in_unit centuries (Finite d) = fround binary64 (d / 3155695200)"
  by (simp add: in_unit_def period_def Duration_def centuries_def ratio_divide_def
      scale_in_double_def int_to_double_consts fmul_def fdiv_def)

lemma scale_millennia: "scale millennia = 31556952000"
  by (simp add: scale_def millennia_def)

lemma in_unit_millennia: "in_unit millennia (Finite d) = fround binary64 (d / 31556952000)"
  by (simp add: in_unit_def period_def Duration_def millennia_def ratio_divide_def
      scale_in_double_def int_to_double_consts fmul_def fdiv_def)

lemma scale_chrono_nanoseconds: "scale chrono_nanoseconds = 1 / 1000000000"
  by (simp add: scale_def chrono_nanoseconds_def)

lemma in_unit_chrono_nanoseconds: "in_unit chrono_nanoseconds (Finite d) = fround binary64 (d * 1000000000)"
  by (simp add: in_unit_def period_def Duration_def chrono_nanoseconds_def ratio_divide_def
      scale_in_double_def int_to_double_consts fmul_def fdiv_def)

lemma scale_chrono_microseconds: "scale chrono_microseconds = 1 / 1000000"
  by (simp add: scale_def chrono_microseconds_def)

lemma in_unit_chrono_microseconds: "in_unit chrono_microseconds (Finite d) = fround binary64 (d * 1000000)"
  by (simp add: in_unit_def period_def Duration_def chrono_microseconds_def ratio_divide_def
      scale_in_double_def int_to_double_consts fmul_def fdiv_def)

lemma scale_chrono_milliseconds: "scale chrono_milliseconds = 1 / 1000"
  by (simp add: scale_def chrono_milliseconds_def)

lemma in_unit_chrono_milliseconds: "in_unit chrono_milliseconds (Finite d) = fround binary64 (d * 1000)"
  by (simp add: in_unit_def period_def Duration_def chrono_milliseconds_def ratio_divide_def
      scale_in_double_def int_to_double_consts fmul_def fdiv_def)

lemma scale_chrono_seconds: "scale chrono_seconds = 1"
  by (simp add: scale_def chrono_seconds_def)

lemma in_unit_chrono_seconds: "in_unit chrono_seconds (Finite d) = Finite d"
  by (simp add: in_unit_def period_def Duration_def chrono_seconds_def ratio_divide_def
      scale_in_double_def int_to_double_consts fmul_def fdiv_def)

lemma scale_chrono_minutes: "scale chrono_minutes = 60"
  by (simp add: scale_def chrono_minutes_def)

lemma in_unit_chrono_minutes: "in_unit chrono_minutes (Finite d) = fround binary64 (d / 60)"
  by (simp add: in_unit_def period_def Duration_def chrono_minutes_def ratio_divide_def
      scale_in_double_def int_to_double_consts fmul_def fdiv_def)

lemma scale_chrono_hours: "scale chrono_hours = 3600"
  by (simp add: scale_def chrono_hours_def)

lemma in_unit_chrono_hours: "in_unit chrono_hours (Finite d) = fround binary64 (d / 3600)"
  by (simp add: in_unit_def period_def Duration_def chrono_hours_def ratio_divide_def
      scale_in_double_def int_to_double_consts fmul_def fdiv_def)

lemmas scale_units =
  scale_picoseconds
  scale_nanoseconds
  scale_microseconds
  scale_milliseconds
  scale_seconds
  scale_minutes
  scale_hours
  scale_days
  scale_weeks
  scale_years
  scale_decades
  scale_centuries
  scale_millennia
  scale_chrono_nanoseconds
  scale_chrono_microseconds
  scale_chrono_milliseconds
  scale_chrono_seconds
  scale_chrono_minutes
  scale_chrono_hours

lemmas in_unit_units =
  in_unit_picoseconds
  in_unit_nanoseconds
  in_unit_microseconds
  in_unit_milliseconds
  in_unit_seconds
  in_unit_minutes
  in_unit_hours
  in_unit_days
  in_unit_weeks
  in_unit_years
  in_unit_decades
  in_unit_centuries
  in_unit_millennia
  in_unit_chrono_nanoseconds
  in_unit_chrono_microseconds
  in_unit_chrono_milliseconds
  in_unit_chrono_seconds
  in_unit_chrono_minutes
  in_unit_chrono_hours

lemma in_unit_catalogue:
  assumes "U \<in> set precision_preserving_catalogue \<union> set integer_tick_catalogue"
  shows "0 < scale U"
    and "in_unit U (Finite d) = (if scale U = 1 then Finite d else fround binary64 (d / scale U))"
proof -
  from assms consider
    "U = picoseconds" | "U = nanoseconds" | "U = microseconds" | "U = milliseconds"
    | "U = seconds" | "U = minutes" | "U = hours" | "U = days" | "U = weeks" | "U = years"
    | "U = decades" | "U = centuries" | "U = millennia"
    | "U = chrono_nanoseconds" | "U = chrono_microseconds" | "U = chrono_milliseconds"
    | "U = chrono_seconds" | "U = chrono_minutes" | "U = chrono_hours"
    unfolding precision_preserving_catalogue_def integer_tick_catalogue_def by auto
  then have "0 < scale U
    \<and> in_unit U (Finite d) = (if scale U = 1 then Finite d else fround binary64 (d / scale U))"
    by cases (simp_all only: scale_units in_unit_units, simp_all)
  then show "0 < scale U"
    and "in_unit U (Finite d) = (if scale U = 1 then Finite d else fround binary64 (d / scale U))"
    by blast+
qed

lemma integer_tick_rep:
  assumes "U \<in> set integer_tick_catalogue"
  shows "rep U = RepInt64"
  using assms
  by (auto simp: integer_tick_catalogue_def chrono_nanoseconds_def chrono_microseconds_def
      chrono_milliseconds_def chrono_seconds_def chrono_minutes_def chrono_hours_def)

lemma precision_preserving_rep:
  assumes "U \<in> set precision_preserving_catalogue"
  shows "rep U = RepDouble"
  using assms
  by (auto simp: precision_preserving_catalogue_def picoseconds_def nanoseconds_def
      microseconds_def milliseconds_def seconds_def minutes_def hours_def days_def weeks_def
      years_def decades_def centuries_def millennia_def)

lemma fround_half_ulp:
  assumes "fround f x = Finite y"
  shows "\<bar>y - x\<bar> \<le> ulp f x / 2"
proof (cases "x = 0")
  case True
  then show ?thesis using assms ulp_pos[of f 0] by (simp add: fround_def)
next
  case False
  define u where "u = ulp f x"
  have upos: "0 < u" unfolding u_def by (rule ulp_pos)
  define k where "k = round_half_even (x / u)"
  have y: "y = of_int k * u"
    using assms False unfolding fround_def Let_def k_def u_def by (simp split: if_splits)
  have "y - x = (of_int k - x / u) * u" unfolding y using upos by (simp add: algebra_simps)
  then have "\<bar>y - x\<bar> = \<bar>of_int k - x / u\<bar> * u"
    using upos by (simp add: abs_mult)
  also have "\<dots> \<le> (1 / 2) * u"
    using round_half_even_error[of "x / u"] upos unfolding k_def
    by (intro mult_right_mono) simp_all
  finally show ?thesis unfolding u_def by simp
qed

lemma powi2_split: "(2::rat) powi (a - b + 1) / 2 = 2 powi a * 2 powi (- b)"
proof -
  have "(2::rat) powi (a - b + 1) = 2 powi (a + (- b) + 1)" by simp
  also have "\<dots> = 2 powi (a + (- b)) * 2" by (subst power_int_add) simp_all
  also have "2 powi (a + (- b)) = (2::rat) powi a * 2 powi (- b)"
    by (subst power_int_add) simp_all
  finally show ?thesis by simp
qed

lemma half_ulp_bound:
  assumes "x \<noteq> 0"
  shows "ulp f x / 2 \<le> \<bar>x\<bar> * 2 powi (- int (precision f)) + 2 powi (emin f - int (precision f))"
proof (cases "emin f \<le> ilog2 \<bar>x\<bar>")
  case True
  have pos: "0 < \<bar>x\<bar>" using assms by simp
  have u: "ulp f x = 2 powi (ilog2 \<bar>x\<bar> - int (precision f) + 1)"
    unfolding ulp_def using True by (simp only: max_absorb1)
  have "ulp f x / 2 = 2 powi (ilog2 \<bar>x\<bar>) * 2 powi (- int (precision f))"
    unfolding u by (rule powi2_split)
  also have "\<dots> \<le> \<bar>x\<bar> * 2 powi (- int (precision f))"
    using ilog2_bounds(1)[OF pos] by (intro mult_right_mono) simp_all
  also have "\<dots> \<le> \<bar>x\<bar> * 2 powi (- int (precision f)) + 2 powi (emin f - int (precision f))"
    by simp
  finally show ?thesis .
next
  case False
  then have "ilog2 \<bar>x\<bar> \<le> emin f" by simp
  then have u: "ulp f x = 2 powi (emin f - int (precision f) + 1)"
    unfolding ulp_def by (simp only: max_absorb2)
  have "ulp f x / 2 = (2::rat) powi (emin f) * 2 powi (- int (precision f))"
    unfolding u by (rule powi2_split)
  also have "\<dots> = 2 powi (emin f + (- int (precision f)))"
    by (subst power_int_add) simp_all
  finally have "ulp f x / 2 = 2 powi (emin f - int (precision f))" by simp
  moreover have "0 \<le> \<bar>x\<bar> * 2 powi (- int (precision f))" by simp
  ultimately show ?thesis by linarith
qed

lemma fround_error_abs:
  assumes "fround f x = Finite y"
  shows "\<bar>y - x\<bar> \<le> \<bar>x\<bar> * 2 powi (- int (precision f)) + 2 powi (emin f - int (precision f))"
proof (cases "x = 0")
  case True
  then have "y = 0" using assms by (simp add: fround_def)
  then show ?thesis using True by simp
next
  case False
  show ?thesis using fround_half_ulp[OF assms] half_ulp_bound[OF False, of f] by linarith
qed

lemma int_to_integral_int64:
  assumes "- (2 ^ 63) \<le> n" and "n \<le> 2 ^ 63 - 1"
  shows "int_to_integral (TSigned 64) n = n"
proof -
  have "0 \<le> n + 2 ^ 63" "n + 2 ^ 63 < 2 ^ 64" using assms by simp_all
  then have "(n + 2 ^ 63) mod 2 ^ 64 = n + 2 ^ 63" by (rule mod_pos_pos_trivial)
  then show ?thesis by (simp add: int_to_integral_def)
qed

lemma view_as_int64:
  assumes r: "rep U = RepInt64"
    and v: "in_unit U (TimeResult.duration r) = Finite v"
    and lo: "- (2 ^ 63) \<le> trunc_toward_zero v" and hi: "trunc_toward_zero v \<le> 2 ^ 63 - 1"
  shows "view_as U (IntegralT (TSigned 64)) r
         = Inr (VIntegral (TSigned 64) (trunc_toward_zero v))"
proof -
  have f: "float_to_integral (TSigned 64) (Finite v) = Inr (trunc_toward_zero v)"
    using lo hi by (simp add: float_to_integral_def int_min_def int_max_def)
  have g: "getDurationView U r
           = Inr \<lparr>TimeView.duration = \<lparr>dtype = U, count = I (trunc_toward_zero v)\<rparr>\<rparr>"
    by (simp add: getDurationView_def getDuration_def duration_cast_def r v f)
  show ?thesis
    by (simp add: view_as_def g as_def static_cast_integral_def
        int_to_integral_int64[OF lo hi])
qed

lemma view_as_int64_undefined:
  assumes r: "rep U = RepInt64"
    and v: "in_unit U (TimeResult.duration r) = Finite v"
    and out: "trunc_toward_zero v < - (2 ^ 63) \<or> 2 ^ 63 - 1 < trunc_toward_zero v"
  shows "view_as U (IntegralT (TSigned 64)) r = Inl UndefinedBehaviour"
proof -
  have f: "float_to_integral (TSigned 64) (Finite v) = Inl UndefinedBehaviour"
    using out by (auto simp: float_to_integral_def int_min_def int_max_def)
  show ?thesis
    by (simp add: view_as_def getDurationView_def getDuration_def duration_cast_def r v f)
qed

section \<open>The scales of the multi-year units\<close>

text \<open>
  Claim C2, as stated: the decades unit has a scale of 315 695 520 seconds per unit, and
  this equals 10 times the years scale. The number is not the one in timer.hpp, so the
  statement fails.
\<close>

theorem decades_scale_counterexample:
  "\<not> (scale decades = 315695520 \<and> scale decades = 10 * scale years)"
  by (simp add: scale_decades)

text \<open>
  Claim C2, amended: the decades unit has a scale of 315 569 520 seconds per unit, the
  years unit one of 31 556 952, and the first is 10 times the second.
\<close>

theorem decades_scale:
  "scale decades = 315569520 \<and> scale years = 31556952 \<and> scale decades = 10 * scale years"
  by (simp add: scale_decades scale_years)

text \<open>
  Claim C3, as stated: the centuries and millennia scales are not 100 times and 1000
  times the years scale. In timer.hpp they are exactly that.
\<close>

theorem centuries_millennia_counterexample:
  "\<not> (scale centuries \<noteq> 100 * scale years) \<and> \<not> (scale millennia \<noteq> 1000 * scale years)"
  by (simp add: scale_centuries scale_millennia scale_years)

text \<open>
  Claim C3, amended: the centuries scale is 3 155 695 200 and the millennia scale is
  31 556 952 000 seconds per unit; they are exactly 100 times and 1000 times the years
  scale, and 10 times and 100 times the decades scale.
\<close>

theorem centuries_millennia_scale:
  "scale centuries = 3155695200 \<and> scale millennia = 31556952000
   \<and> scale centuries = 100 * scale years \<and> scale millennia = 1000 * scale years
   \<and> scale centuries = 10 * scale decades \<and> scale millennia = 100 * scale decades"
  by (simp add: scale_centuries scale_millennia scale_years scale_decades)

section \<open>Integer-tick views\<close>

lemma double_0_3: "fround binary64 (3 / 10) = Finite (5404319552844595 / 2 ^ 54)"
  using fround_nearI[where f = binary64 and e = "- 2" and m = 5404319552844595
      and x = "3 / 10"]
  by (simp add: binary64_def max_finite_def)

lemma double_0_3_representable: "representable binary64 (5404319552844595 / 2 ^ 54)"
  unfolding representable_def
  using fround_nearI[where f = binary64 and e = "- 2" and m = 5404319552844595
      and x = "5404319552844595 / 2 ^ 54"]
  by (simp add: binary64_def max_finite_def)

lemma double_0_3_in_nanoseconds:
  "in_unit chrono_nanoseconds (Finite (5404319552844595 / 2 ^ 54)) = Finite 300000000"
  unfolding in_unit_chrono_nanoseconds
  using fround_nearI[where f = binary64 and e = 28 and m = "300000000 * 2 ^ 24"
      and x = "5404319552844595 / 2 ^ 54 * 1000000000"]
  by (simp add: binary64_def max_finite_def)

lemma int_to_double_300000000: "int_to_double 300000000 = Finite 300000000"
  unfolding int_to_double_def
  using fround_nearI[where f = binary64 and e = 28 and m = "300000000 * 2 ^ 24"
      and x = 300000000]
  by (simp add: binary64_def max_finite_def)

lemma measured_300ms:
  "fsub (time_point_cast_Duration 300000000) (time_point_cast_Duration 0)
   = Finite (5404319552844595 / 2 ^ 54)"
proof -
  have z: "time_point_cast_Duration 0 = Finite 0"
    by (simp add: time_point_cast_Duration_def ratio_divide_def period_def Duration_def
        scale_in_double_def int_to_double_1000000000 fdiv_def)
       (simp add: int_to_double_def fround_0)
  have e: "time_point_cast_Duration 300000000 = Finite (5404319552844595 / 2 ^ 54)"
    using double_0_3
    by (simp add: time_point_cast_Duration_def ratio_divide_def period_def Duration_def
        scale_in_double_def int_to_double_1000000000 int_to_double_300000000 fdiv_def)
  show ?thesis
    unfolding z e using double_0_3_representable
    by (simp add: fsub_def representable_def)
qed

text \<open>
  Claim C4, as stated: for every integer-tick unit \<open>U\<close> and non-negative Duration \<open>D\<close>,
  \<^verbatim>\<open>getDurationView<U>().as<int64_t>()\<close> equals \<open>\<lfloor>D / scale U\<rfloor>\<close> exactly. It fails at
  the \<^verbatim>\<open>double\<close> nearest to 0.3 seconds (what \<^verbatim>\<open>Timer\<close> writes when the steady clock
  goes from tick 0 to tick 300 000 000), viewed in \<^verbatim>\<open>std::chrono::nanoseconds\<close>: the
  product with \<open>10\<^sup>9\<close> rounds up to 300 000 000, while \<open>D / scale U\<close> is just below it.
\<close>

theorem integer_tick_floor_counterexample:
  "representable binary64 (5404319552844595 / 2 ^ 54)
   \<and> fround binary64 (3 / 10) = Finite (5404319552844595 / 2 ^ 54)
   \<and> fsub (time_point_cast_Duration 300000000) (time_point_cast_Duration 0)
       = Finite (5404319552844595 / 2 ^ 54)
   \<and> view_as chrono_nanoseconds (IntegralT (TSigned 64))
        \<lparr>functionResult = (), duration = Finite (5404319552844595 / 2 ^ 54)\<rparr>
      = Inr (VIntegral (TSigned 64) 300000000)
   \<and> \<lfloor>(5404319552844595 / 2 ^ 54) / scale chrono_nanoseconds\<rfloor> = 299999999"
proof -
  have v: "in_unit chrono_nanoseconds
             (TimeResult.duration \<lparr>functionResult = (), duration = Finite (5404319552844595 / 2 ^ 54)\<rparr>)
           = Finite 300000000"
    using double_0_3_in_nanoseconds by simp
  have r: "rep chrono_nanoseconds = RepInt64" by (simp add: chrono_nanoseconds_def)
  have "view_as chrono_nanoseconds (IntegralT (TSigned 64))
        \<lparr>functionResult = (), duration = Finite (5404319552844595 / 2 ^ 54)\<rparr>
      = Inr (VIntegral (TSigned 64) (trunc_toward_zero 300000000))"
    by (rule view_as_int64[OF r v]) (simp_all add: trunc_toward_zero_def)
  then have view: "view_as chrono_nanoseconds (IntegralT (TSigned 64))
        \<lparr>functionResult = (), duration = Finite (5404319552844595 / 2 ^ 54)\<rparr>
      = Inr (VIntegral (TSigned 64) 300000000)"
    by (simp add: trunc_toward_zero_def)
  have fl: "\<lfloor>(5404319552844595 / 2 ^ 54) / scale chrono_nanoseconds\<rfloor> = 299999999"
    unfolding scale_chrono_nanoseconds by (rule floor_unique) simp_all
  show ?thesis
    using double_0_3_representable double_0_3 measured_300ms view fl by blast
qed

text \<open>
  Claim C4, amended: for every integer-tick unit \<open>U\<close> and non-negative Duration \<open>D\<close>,
  \<^verbatim>\<open>getDurationView<U>().as<int64_t>()\<close> equals \<open>\<lfloor>v\<rfloor>\<close>, which is \<open>v\<close> truncated toward
  zero, where \<open>v\<close> is the \<^verbatim>\<open>double\<close> that \<^verbatim>\<open>duration_cast\<close> computes: \<open>D\<close> itself for
  seconds, and otherwise \<open>D / scale U\<close> rounded to the nearest \<^verbatim>\<open>double\<close>, hence within
  a relative \<open>2\<^sup>-\<^sup>5\<^sup>3\<close> (and an absolute \<open>2\<^sup>-\<^sup>1\<^sup>0\<^sup>7\<^sup>5\<close>) of it; provided \<open>v\<close> is finite and
  \<open>\<lfloor>v\<rfloor>\<close> fits a signed 64-bit integer.
\<close>

theorem integer_tick_floor:
  assumes U: "U \<in> set integer_tick_catalogue"
    and d: "TimeResult.duration r = Finite d" and nonneg: "0 \<le> d"
    and v: "in_unit U (Finite d) = Finite v"
    and hi: "\<lfloor>v\<rfloor> \<le> 2 ^ 63 - 1"
  shows "view_as U (IntegralT (TSigned 64)) r = Inr (VIntegral (TSigned 64) \<lfloor>v\<rfloor>)
         \<and> \<lfloor>v\<rfloor> = trunc_toward_zero v
         \<and> Finite v = (if scale U = 1 then Finite d else fround binary64 (d / scale U))
         \<and> \<bar>v - d / scale U\<bar> \<le> \<bar>d / scale U\<bar> * 2 powi (- 53) + 2 powi (- 1075)"
proof -
  have cat: "U \<in> set precision_preserving_catalogue \<union> set integer_tick_catalogue"
    using U by simp
  have eq: "Finite v = (if scale U = 1 then Finite d else fround binary64 (d / scale U))"
    using in_unit_catalogue(2)[OF cat, of d] v by simp
  have v0: "0 \<le> v"
  proof (cases "scale U = 1")
    case True
    then show ?thesis using eq nonneg by simp
  next
    case False
    then have "fround binary64 (d / scale U) = Finite v" using eq by simp
    moreover have "0 \<le> d / scale U" using nonneg in_unit_catalogue(1)[OF cat] by simp
    ultimately show ?thesis using fround_sign by blast
  qed
  then have t: "trunc_toward_zero v = \<lfloor>v\<rfloor>" by (simp add: trunc_toward_zero_def)
  have "0 \<le> \<lfloor>v\<rfloor>" using v0 by simp
  moreover have "- (2 ^ 63) \<le> (0::int)" by simp
  ultimately have lo: "- (2 ^ 63) \<le> trunc_toward_zero v" unfolding t by linarith
  have view: "view_as U (IntegralT (TSigned 64)) r
              = Inr (VIntegral (TSigned 64) (trunc_toward_zero v))"
    using integer_tick_rep[OF U] v lo hi unfolding d[symmetric] t[symmetric]
    by (rule view_as_int64)
  have err: "\<bar>v - d / scale U\<bar> \<le> \<bar>d / scale U\<bar> * 2 powi (- 53) + 2 powi (- 1075)"
  proof (cases "scale U = 1")
    case True
    then have "v = d" using eq by simp
    then show ?thesis using True by simp
  next
    case False
    then have "fround binary64 (d / scale U) = Finite v" using eq by simp
    from fround_error_abs[OF this] show ?thesis by (simp add: binary64_def)
  qed
  show ?thesis using view t eq err by simp
qed

lemma double_1_5: "fround binary64 (3 / 2) = Finite (3 / 2)"
  using fround_nearI[where f = binary64 and e = 0 and m = "3 * 2 ^ 51" and x = "3 / 2"]
  by (simp add: binary64_def max_finite_def)

text \<open>The amended C4 at 90 seconds, viewed in \<^verbatim>\<open>std::chrono::minutes\<close>: one minute.\<close>

theorem integer_tick_floor_witness:
  "chrono_minutes \<in> set integer_tick_catalogue
   \<and> in_unit chrono_minutes (Finite 90) = Finite (3 / 2)
   \<and> view_as chrono_minutes (IntegralT (TSigned 64)) \<lparr>functionResult = (), duration = Finite 90\<rparr>
       = Inr (VIntegral (TSigned 64) 1)"
proof -
  have U: "chrono_minutes \<in> set integer_tick_catalogue"
    by (simp add: integer_tick_catalogue_def)
  have d: "TimeResult.duration \<lparr>functionResult = (), duration = Finite 90\<rparr> = Finite 90"
    by simp
  have v: "in_unit chrono_minutes (Finite 90) = Finite (3 / 2)"
    using double_1_5 by (simp add: in_unit_chrono_minutes)
  have fl: "\<lfloor>3 / 2 :: rat\<rfloor> = 1" by (rule floor_unique) simp_all
  have hi: "\<lfloor>3 / 2 :: rat\<rfloor> \<le> 2 ^ 63 - 1" unfolding fl by simp
  have nonneg: "(0::rat) \<le> 90" by simp
  from integer_tick_floor[OF U d nonneg v hi] U v show ?thesis unfolding fl by blast
qed

lemma double_minus_0_3_representable: "representable binary64 (- (5404319552844595 / 2 ^ 54))"
  unfolding representable_def
  using fround_nearI[where f = binary64 and e = "- 2" and m = "- 5404319552844595"
      and x = "- (5404319552844595 / 2 ^ 54)"]
  by (simp add: binary64_def max_finite_def)

lemma double_minus_0_3_in_nanoseconds:
  "in_unit chrono_nanoseconds (Finite (- (5404319552844595 / 2 ^ 54))) = Finite (- 300000000)"
  unfolding in_unit_chrono_nanoseconds
  using fround_nearI[where f = binary64 and e = 28 and m = "- (300000000 * 2 ^ 24)"
      and x = "- (5404319552844595 / 2 ^ 54) * 1000000000"]
  by (simp add: binary64_def max_finite_def)

lemma double_minus_1_5: "fround binary64 (- 90 / 60) = Finite (- 3 / 2)"
  using fround_nearI[where f = binary64 and e = 0 and m = "- (3 * 2 ^ 51)" and x = "- 90 / 60"]
  by (simp add: binary64_def max_finite_def)

text \<open>
  Claim C10, as stated: for every negative Duration \<open>D\<close> and integer-tick unit \<open>U\<close>,
  \<^verbatim>\<open>getDurationView<U>().as<int64_t>()\<close> is \<open>D / scale U\<close> truncated toward zero and not
  its floor. At the \<^verbatim>\<open>double\<close> nearest to -0.3 seconds, viewed in
  \<^verbatim>\<open>std::chrono::nanoseconds\<close>, the product with \<open>10\<^sup>9\<close> rounds to -300 000 000 before the
  cast: the result is the floor of \<open>D / scale U\<close>, and its truncation is -299 999 999.
\<close>

theorem negative_duration_counterexample:
  "representable binary64 (- (5404319552844595 / 2 ^ 54))
   \<and> view_as chrono_nanoseconds (IntegralT (TSigned 64))
        \<lparr>functionResult = (), duration = Finite (- (5404319552844595 / 2 ^ 54))\<rparr>
      = Inr (VIntegral (TSigned 64) (- 300000000))
   \<and> trunc_toward_zero (- (5404319552844595 / 2 ^ 54) / scale chrono_nanoseconds) = - 299999999
   \<and> \<lfloor>- (5404319552844595 / 2 ^ 54) / scale chrono_nanoseconds\<rfloor> = - 300000000"
proof -
  have v: "in_unit chrono_nanoseconds
             (TimeResult.duration
                \<lparr>functionResult = (), duration = Finite (- (5404319552844595 / 2 ^ 54))\<rparr>)
           = Finite (- 300000000)"
    using double_minus_0_3_in_nanoseconds by simp
  have r: "rep chrono_nanoseconds = RepInt64" by (simp add: chrono_nanoseconds_def)
  have t: "trunc_toward_zero (- 300000000) = - 300000000"
    by (simp add: trunc_toward_zero_def)
  have "view_as chrono_nanoseconds (IntegralT (TSigned 64))
        \<lparr>functionResult = (), duration = Finite (- (5404319552844595 / 2 ^ 54))\<rparr>
      = Inr (VIntegral (TSigned 64) (trunc_toward_zero (- 300000000)))"
    by (rule view_as_int64[OF r v]) (simp_all add: t)
  then have view: "view_as chrono_nanoseconds (IntegralT (TSigned 64))
        \<lparr>functionResult = (), duration = Finite (- (5404319552844595 / 2 ^ 54))\<rparr>
      = Inr (VIntegral (TSigned 64) (- 300000000))"
    unfolding t .
  have ce: "\<lceil>- (5404319552844595 / 2 ^ 54) / scale chrono_nanoseconds\<rceil> = - 299999999"
    unfolding scale_chrono_nanoseconds by (rule ceiling_unique) simp_all
  have tr: "trunc_toward_zero (- (5404319552844595 / 2 ^ 54) / scale chrono_nanoseconds)
            = - 299999999"
    unfolding trunc_toward_zero_def ce[symmetric] scale_chrono_nanoseconds by simp
  have fl: "\<lfloor>- (5404319552844595 / 2 ^ 54) / scale chrono_nanoseconds\<rfloor> = - 300000000"
    unfolding scale_chrono_nanoseconds by (rule floor_unique) simp_all
  show ?thesis
    using double_minus_0_3_representable view tr fl by blast
qed

text \<open>
  Claim C10, amended: for every negative Duration \<open>D\<close> and every integer-tick unit \<open>U\<close>,
  \<^verbatim>\<open>getDurationView<U>().as<int64_t>()\<close> is \<open>v\<close> truncated toward zero, \<open>\<lceil>v\<rceil> = - \<lfloor>\<bar>v\<bar>\<rfloor>\<close>,
  one more than \<open>\<lfloor>v\<rfloor>\<close> whenever \<open>v\<close> is not whole, where \<open>v\<close> is the \<^verbatim>\<open>double\<close> that
  \<^verbatim>\<open>duration_cast\<close> computes: \<open>D\<close> itself for seconds, and otherwise \<open>D / scale U\<close> rounded
  to the nearest \<^verbatim>\<open>double\<close>, hence within a relative \<open>2\<^sup>-\<^sup>5\<^sup>3\<close> (and an absolute \<open>2\<^sup>-\<^sup>1\<^sup>0\<^sup>7\<^sup>5\<close>)
  of it. For example -1.5 seconds in integer seconds is -1, not -2. This holds provided
  \<open>v\<close> is finite and \<open>\<lceil>v\<rceil>\<close> fits a signed 64-bit integer.
\<close>

theorem negative_duration_truncates:
  assumes U: "U \<in> set integer_tick_catalogue"
    and d: "TimeResult.duration r = Finite d" and neg: "d < 0"
    and v: "in_unit U (Finite d) = Finite v"
    and lo: "- (2 ^ 63) \<le> \<lceil>v\<rceil>"
  shows "view_as U (IntegralT (TSigned 64)) r = Inr (VIntegral (TSigned 64) \<lceil>v\<rceil>)
         \<and> \<lceil>v\<rceil> = trunc_toward_zero v \<and> \<lceil>v\<rceil> = - \<lfloor>\<bar>v\<bar>\<rfloor>
         \<and> (of_int \<lfloor>v\<rfloor> \<noteq> v \<longrightarrow> \<lceil>v\<rceil> = \<lfloor>v\<rfloor> + 1)
         \<and> Finite v = (if scale U = 1 then Finite d else fround binary64 (d / scale U))
         \<and> \<bar>v - d / scale U\<bar> \<le> \<bar>d / scale U\<bar> * 2 powi (- 53) + 2 powi (- 1075)"
proof -
  have cat: "U \<in> set precision_preserving_catalogue \<union> set integer_tick_catalogue"
    using U by simp
  have eq: "Finite v = (if scale U = 1 then Finite d else fround binary64 (d / scale U))"
    using in_unit_catalogue(2)[OF cat, of d] v by simp
  have v0: "v \<le> 0"
  proof (cases "scale U = 1")
    case True
    then show ?thesis using eq neg by simp
  next
    case False
    then have "fround binary64 (d / scale U) = Finite v" using eq by simp
    moreover have "d / scale U \<le> 0"
      using neg in_unit_catalogue(1)[OF cat] by (simp add: divide_le_0_iff)
    ultimately show ?thesis using fround_sign by blast
  qed
  have t: "trunc_toward_zero v = \<lceil>v\<rceil>"
  proof (cases "v = 0")
    case True
    then show ?thesis by (simp add: trunc_toward_zero_def)
  next
    case False
    then show ?thesis using v0 by (simp add: trunc_toward_zero_def)
  qed
  have "\<lceil>v\<rceil> \<le> 0" using v0 by (simp add: ceiling_le_iff)
  moreover have "(0::int) \<le> 2 ^ 63 - 1" by simp
  ultimately have hi: "trunc_toward_zero v \<le> 2 ^ 63 - 1" unfolding t by linarith
  have lo': "- (2 ^ 63) \<le> trunc_toward_zero v" unfolding t by (rule lo)
  have view: "view_as U (IntegralT (TSigned 64)) r
              = Inr (VIntegral (TSigned 64) (trunc_toward_zero v))"
    using integer_tick_rep[OF U] v lo' hi unfolding d[symmetric]
    by (rule view_as_int64)
  have ab: "\<lceil>v\<rceil> = - \<lfloor>\<bar>v\<bar>\<rfloor>" using v0 by (simp add: ceiling_def)
  have nonint: "of_int \<lfloor>v\<rfloor> \<noteq> v \<longrightarrow> \<lceil>v\<rceil> = \<lfloor>v\<rfloor> + 1"
    by (simp add: ceiling_altdef)
  have err: "\<bar>v - d / scale U\<bar> \<le> \<bar>d / scale U\<bar> * 2 powi (- 53) + 2 powi (- 1075)"
  proof (cases "scale U = 1")
    case True
    then have "v = d" using eq by simp
    then show ?thesis using True by simp
  next
    case False
    then have "fround binary64 (d / scale U) = Finite v" using eq by simp
    from fround_error_abs[OF this] show ?thesis by (simp add: binary64_def)
  qed
  show ?thesis using view t ab nonint eq err by simp
qed

text \<open>The amended C10 at -90 seconds, viewed in \<^verbatim>\<open>std::chrono::minutes\<close>: the division
  gives -1.5 minutes and the view is -1, while the floor is -2; and at the example of the
  claim, -1.5 seconds in integer seconds.\<close>

theorem negative_duration_truncates_witness:
  "chrono_minutes \<in> set integer_tick_catalogue \<and> (- 90 :: rat) < 0
   \<and> in_unit chrono_minutes (Finite (- 90)) = Finite (- 3 / 2)
   \<and> view_as chrono_minutes (IntegralT (TSigned 64))
        \<lparr>functionResult = (), duration = Finite (- 90)\<rparr>
      = Inr (VIntegral (TSigned 64) (- 1))
   \<and> view_as chrono_seconds (IntegralT (TSigned 64))
        \<lparr>functionResult = (), duration = Finite (- 3 / 2)\<rparr>
      = Inr (VIntegral (TSigned 64) (- 1))
   \<and> \<lfloor>- 3 / 2 :: rat\<rfloor> = - 2"
proof -
  have U: "chrono_minutes \<in> set integer_tick_catalogue"
    and U': "chrono_seconds \<in> set integer_tick_catalogue"
    by (simp_all add: integer_tick_catalogue_def)
  have d: "TimeResult.duration \<lparr>functionResult = (), duration = Finite (- 90)\<rparr>
           = Finite (- 90)"
    by simp
  have d': "TimeResult.duration \<lparr>functionResult = (), duration = Finite (- 3 / 2)\<rparr>
           = Finite (- 3 / 2)"
    by simp
  have v: "in_unit chrono_minutes (Finite (- 90)) = Finite (- 3 / 2)"
    using double_minus_1_5 by (simp add: in_unit_chrono_minutes)
  have v': "in_unit chrono_seconds (Finite (- 3 / 2)) = Finite (- 3 / 2)"
    by (simp add: in_unit_chrono_seconds)
  have ce: "\<lceil>- 3 / 2 :: rat\<rceil> = - 1" by (rule ceiling_unique) simp_all
  have fl: "\<lfloor>- 3 / 2 :: rat\<rfloor> = - 2" by (rule floor_unique) simp_all
  have lo: "- (2 ^ 63) \<le> \<lceil>- 3 / 2 :: rat\<rceil>" unfolding ce by simp
  have neg: "(- 90 :: rat) < 0" and neg': "(- 3 / 2 :: rat) < 0" by simp_all
  from negative_duration_truncates[OF U d neg v lo]
    negative_duration_truncates[OF U' d' neg' v' lo] U neg v fl
  show ?thesis unfolding ce by blast
qed

section \<open>The measured region\<close>

lemma time_nonvoid_run:
  assumes "toTime (clocks w, user w) = Some (out, c, u)"
  shows "time_nonvoid mpi rt toTime w =
     Some (case out of
             Raised x \<Rightarrow> Raised x
           | Returned v \<Rightarrow>
               Returned \<lparr>functionResult = fst (record_init rt v),
                         duration = fsub (read_time_point mpi c) (read_time_point mpi (clocks w))\<rparr>,
           \<lparr>clocks = c, user = u,
            trace = trace w @
              [ClockRead (read_time_point mpi (clocks w)), CallableInvoked, CallableFinished]
              @ (case out of Raised x \<Rightarrow> [] | Returned v \<Rightarrow> lambda_return rt)
              @ [ClockRead (read_time_point mpi c),
                 SlotWrite Local_duration
                   (fsub (read_time_point mpi c) (read_time_point mpi (clocks w)))]
              @ (case out of Raised x \<Rightarrow> [] | Returned v \<Rightarrow> snd (record_init rt v))\<rparr>)"
  using assms
  by (cases out)
     (simp_all add: time_nonvoid_def Timer_ctor_def Timer_dtor_def invoke_def Let_def
        split: prod.split)

lemma time_void_run:
  assumes "toTime (clocks w, user w) = Some (out, c, u)"
  shows "time_void mpi toTime w =
     Some (case out of
             Raised x \<Rightarrow> Raised x
           | Returned v \<Rightarrow>
               Returned \<lparr>functionResult = (),
                         duration = fsub (read_time_point mpi c) (read_time_point mpi (clocks w))\<rparr>,
           \<lparr>clocks = c, user = u,
            trace = trace w @
              [ClockRead (read_time_point mpi (clocks w)), CallableInvoked, CallableFinished,
               ClockRead (read_time_point mpi c),
               SlotWrite Result_duration
                 (fsub (read_time_point mpi c) (read_time_point mpi (clocks w)))]\<rparr>)"
  using assms
  by (cases out)
     (simp_all add: time_void_def Timer_ctor_def Timer_dtor_def invoke_def Let_def)

lemma fsub_finite: "fsub (Finite e) (Finite s) = fround binary64 (e - s)"
  by (simp add: fsub_def)

lemma fround_exact:
  assumes "representable binary64 x"
  shows "fround binary64 x = Finite x"
  using assms by (simp add: representable_def)

lemma fround_binary64_error:
  assumes "fround binary64 x = Finite d"
  shows "\<bar>d - x\<bar> \<le> \<bar>x\<bar> * 2 powi (- 53) + 2 powi (- 1075)"
  using fround_error_abs[OF assms] by (simp add: binary64_def)

lemma time_point_cast_eq:
  assumes "int_to_double n = Finite (of_int n)"
    and "fround binary64 (of_int n / 1000000000) = Finite t"
  shows "time_point_cast_Duration n = Finite t"
  using assms
  by (simp add: time_point_cast_Duration_def ratio_divide_def period_def Duration_def
      scale_in_double_def int_to_double_1000000000 fdiv_def)

lemma time_point_0: "time_point_cast_Duration 0 = Finite 0"
  by (rule time_point_cast_eq) (simp_all add: int_to_double_def fround_0)

lemma int_to_double_3000000000: "int_to_double 3000000000 = Finite 3000000000"
  unfolding int_to_double_def
  using fround_nearI[where f = binary64 and e = 31 and m = 6291456000000000 and x = 3000000000]
  by (simp add: binary64_def max_finite_def)

lemma double_tick_3000000000: "fround binary64 (3000000000 / 1000000000) = Finite (3)"
  using fround_nearI[where f = binary64 and e = 1 and m = 6755399441055744 and x = "3000000000 / 1000000000"]
  by (simp add: binary64_def max_finite_def)

lemma time_point_3000000000: "time_point_cast_Duration 3000000000 = Finite (3)"
  using int_to_double_3000000000 double_tick_3000000000 by (intro time_point_cast_eq) simp_all

lemma int_to_double_1750000000: "int_to_double 1750000000 = Finite 1750000000"
  unfolding int_to_double_def
  using fround_nearI[where f = binary64 and e = 30 and m = 7340032000000000 and x = 1750000000]
  by (simp add: binary64_def max_finite_def)

lemma double_tick_1750000000: "fround binary64 (1750000000 / 1000000000) = Finite (7 / 2 ^ 2)"
  using fround_nearI[where f = binary64 and e = 0 and m = 7881299347898368 and x = "1750000000 / 1000000000"]
  by (simp add: binary64_def max_finite_def)

lemma time_point_1750000000: "time_point_cast_Duration 1750000000 = Finite (7 / 2 ^ 2)"
  using int_to_double_1750000000 double_tick_1750000000 by (intro time_point_cast_eq) simp_all

lemma int_to_double_8388608000000000: "int_to_double 8388608000000000 = Finite 8388608000000000"
  unfolding int_to_double_def
  using fround_nearI[where f = binary64 and e = 52 and m = 8388608000000000 and x = 8388608000000000]
  by (simp add: binary64_def max_finite_def)

lemma double_tick_8388608000000000: "fround binary64 (8388608000000000 / 1000000000) = Finite (8388608)"
  using fround_nearI[where f = binary64 and e = 23 and m = 4503599627370496 and x = "8388608000000000 / 1000000000"]
  by (simp add: binary64_def max_finite_def)

lemma time_point_8388608000000000: "time_point_cast_Duration 8388608000000000 = Finite (8388608)"
  using int_to_double_8388608000000000 double_tick_8388608000000000 by (intro time_point_cast_eq) simp_all

lemma int_to_double_8388608000000001: "int_to_double 8388608000000001 = Finite 8388608000000001"
  unfolding int_to_double_def
  using fround_nearI[where f = binary64 and e = 52 and m = 8388608000000001 and x = 8388608000000001]
  by (simp add: binary64_def max_finite_def)

lemma double_tick_8388608000000001: "fround binary64 (8388608000000001 / 1000000000) = Finite (4503599627370497 / 2 ^ 29)"
  using fround_nearI[where f = binary64 and e = 23 and m = 4503599627370497 and x = "8388608000000001 / 1000000000"]
  by (simp add: binary64_def max_finite_def)

lemma time_point_8388608000000001: "time_point_cast_Duration 8388608000000001 = Finite (4503599627370497 / 2 ^ 29)"
  using int_to_double_8388608000000001 double_tick_8388608000000001 by (intro time_point_cast_eq) simp_all

lemma time_point_1000000000: "time_point_cast_Duration 1000000000 = Finite 1"
proof -
  have "fround binary64 1 = Finite 1"
    using fround_nearI[where f = binary64 and e = 0 and m = "2 ^ 52" and x = 1]
    by (simp add: binary64_def max_finite_def)
  then show ?thesis
    using int_to_double_1000000000 by (intro time_point_cast_eq) simp_all
qed

lemma double_2: "fround binary64 (2) = Finite (2)"
  using fround_nearI[where f = binary64 and e = 1 and m = 4503599627370496 and x = "2"]
  by (simp add: binary64_def max_finite_def)

lemma double_0_75: "fround binary64 (3 / 4) = Finite (3 / 2 ^ 2)"
  using fround_nearI[where f = binary64 and e = "- 1" and m = 6755399441055744 and x = "3 / 4"]
  by (simp add: binary64_def max_finite_def)

lemma double_2_pow_m29: "fround binary64 (1 / 2 ^ 29) = Finite (1 / 2 ^ 29)"
  using fround_nearI[where f = binary64 and e = "- 29" and m = 4503599627370496 and x = "1 / 2 ^ 29"]
  by (simp add: binary64_def max_finite_def)

text \<open>
  Claim C1, as stated: the Duration of the returned record is exactly the elapsed time of
  the invocation. The time points are the clock readings converted to \<^verbatim>\<open>double\<close>
  seconds before they are subtracted: when the steady clock goes from tick
  8 388 608 000 000 000 to the next tick, one nanosecond later, the record says
  \<open>2\<^sup>-\<^sup>2\<^sup>9\<close> seconds, which is not \<open>10\<^sup>-\<^sup>9\<close> seconds.
\<close>

theorem elapsed_time_counterexample:
  "time_nonvoid False (ByValue Movable)
     (sleeping_task 1 (42::int) :: (int, string, unit) callable) (world_at 8388608000000000) =
     Some (Returned \<lparr>functionResult = Object 42, duration = Finite (1 / 2 ^ 29)\<rparr>,
           \<lparr>clocks = \<lparr>steady_now = 8388608000000001, mpi_wtime = Finite 0\<rparr>, user = (),
            trace = [ClockRead (Finite 8388608), CallableInvoked, CallableFinished,
                     ClockRead (Finite (4503599627370497 / 2 ^ 29)),
                     SlotWrite Local_duration (Finite (1 / 2 ^ 29)),
                     ResultInit MoveInit]\<rparr>)
   \<and> ((8388608000000001 - 8388608000000000) / 1000000000 :: rat) \<noteq> 1 / 2 ^ 29"
proof -
  have run: "(sleeping_task 1 (42::int) :: (int, string, unit) callable)
               (clocks (world_at 8388608000000000), user (world_at 8388608000000000))
             = Some (Returned 42, \<lparr>steady_now = 8388608000000001, mpi_wtime = Finite 0\<rparr>, ())"
    by (simp add: sleeping_task_def world_at_def)
  have sub: "fsub (Finite (4503599627370497 / 2 ^ 29)) (Finite 8388608) = Finite (1 / 2 ^ 29)"
    using double_2_pow_m29 by (simp add: fsub_def)
  have t: "time_nonvoid False (ByValue Movable)
     (sleeping_task 1 (42::int) :: (int, string, unit) callable) (world_at 8388608000000000) =
     Some (Returned \<lparr>functionResult = Object 42, duration = Finite (1 / 2 ^ 29)\<rparr>,
           \<lparr>clocks = \<lparr>steady_now = 8388608000000001, mpi_wtime = Finite 0\<rparr>, user = (),
            trace = [ClockRead (Finite 8388608), CallableInvoked, CallableFinished,
                     ClockRead (Finite (4503599627370497 / 2 ^ 29)),
                     SlotWrite Local_duration (Finite (1 / 2 ^ 29)),
                     ResultInit MoveInit]\<rparr>)"
    using time_nonvoid_run[where w = "world_at 8388608000000000" and mpi = False
        and rt = "ByValue Movable"
        and toTime = "sleeping_task 1 (42::int) :: (int, string, unit) callable", OF run]
      time_point_8388608000000000 time_point_8388608000000001 sub
    by (simp add: world_at_def read_time_point_def record_init_def lambda_return_def
        init_from_xvalue_def)
  have ne: "((8388608000000001 - 8388608000000000) / 1000000000 :: rat) \<noteq> 1 / 2 ^ 29"
    by simp
  show ?thesis using t ne by (rule conjI)
qed

text \<open>
  Claim C1, amended: for every invocation of \<^verbatim>\<open>time(f)\<close>, in either shape, on a callable
  that finishes, the start time point is read from the clock as it stands before \<open>f\<close> is
  invoked and the end time point from the clock as \<open>f\<close> leaves it, after \<open>f\<close> has
  returned or raised, both as \<^verbatim>\<open>double\<close> seconds; the Duration written into the slot is
  end minus start in \<^verbatim>\<open>double\<close>, that is the \<^verbatim>\<open>double\<close> nearest to the difference of the
  two time points (within a relative \<open>2\<^sup>-\<^sup>5\<^sup>3\<close> and an absolute \<open>2\<^sup>-\<^sup>1\<^sup>0\<^sup>7\<^sup>5\<close> of it, and
  equal to it when it is a \<^verbatim>\<open>double\<close>); this write happens on every exit path of the
  measured region; and the record returned after a \<^verbatim>\<open>return\<close> carries that Duration.
\<close>

theorem time_measures_invocation:
  fixes toTime :: "('a, 'e, 'u) callable" and toTimeV :: "(unit, 'e, 'u) callable"
  assumes run: "toTime (clocks w, user w) = Some (out, c, u)"
    and runV: "toTimeV (clocks w, user w) = Some (outV, cV, uV)"
    and s: "read_time_point mpi (clocks w) = Finite s"
    and e: "read_time_point mpi c = Finite e"
    and eV: "read_time_point mpi cV = Finite eV"
  shows
    "time_nonvoid mpi rt toTime w =
       Some (case out of
               Raised x \<Rightarrow> Raised x
             | Returned v \<Rightarrow>
                 Returned \<lparr>functionResult = fst (record_init rt v),
                           duration = fround binary64 (e - s)\<rparr>,
             \<lparr>clocks = c, user = u,
              trace = trace w @
                [ClockRead (Finite s), CallableInvoked, CallableFinished]
                @ (case out of Raised x \<Rightarrow> [] | Returned v \<Rightarrow> lambda_return rt)
                @ [ClockRead (Finite e), SlotWrite Local_duration (fround binary64 (e - s))]
                @ (case out of Raised x \<Rightarrow> [] | Returned v \<Rightarrow> snd (record_init rt v))\<rparr>)
     \<and> time_void mpi toTimeV w =
       Some (case outV of
               Raised x \<Rightarrow> Raised x
             | Returned v \<Rightarrow>
                 Returned \<lparr>functionResult = (), duration = fround binary64 (eV - s)\<rparr>,
             \<lparr>clocks = cV, user = uV,
              trace = trace w @
                [ClockRead (Finite s), CallableInvoked, CallableFinished,
                 ClockRead (Finite eV), SlotWrite Result_duration (fround binary64 (eV - s))]\<rparr>)
     \<and> (\<forall>d. fround binary64 (e - s) = Finite d
            \<longrightarrow> \<bar>d - (e - s)\<bar> \<le> \<bar>e - s\<bar> * 2 powi (- 53) + 2 powi (- 1075))
     \<and> (\<forall>d. fround binary64 (eV - s) = Finite d
            \<longrightarrow> \<bar>d - (eV - s)\<bar> \<le> \<bar>eV - s\<bar> * 2 powi (- 53) + 2 powi (- 1075))
     \<and> (representable binary64 (e - s) \<longrightarrow> fround binary64 (e - s) = Finite (e - s))
     \<and> (representable binary64 (eV - s) \<longrightarrow> fround binary64 (eV - s) = Finite (eV - s))"
proof -
  have a: "time_nonvoid mpi rt toTime w =
       Some (case out of
               Raised x \<Rightarrow> Raised x
             | Returned v \<Rightarrow>
                 Returned \<lparr>functionResult = fst (record_init rt v),
                           duration = fround binary64 (e - s)\<rparr>,
             \<lparr>clocks = c, user = u,
              trace = trace w @
                [ClockRead (Finite s), CallableInvoked, CallableFinished]
                @ (case out of Raised x \<Rightarrow> [] | Returned v \<Rightarrow> lambda_return rt)
                @ [ClockRead (Finite e), SlotWrite Local_duration (fround binary64 (e - s))]
                @ (case out of Raised x \<Rightarrow> [] | Returned v \<Rightarrow> snd (record_init rt v))\<rparr>)"
    using time_nonvoid_run[where toTime = toTime and w = w and mpi = mpi and rt = rt, OF run]
    unfolding s e fsub_finite .
  have b: "time_void mpi toTimeV w =
       Some (case outV of
               Raised x \<Rightarrow> Raised x
             | Returned v \<Rightarrow>
                 Returned \<lparr>functionResult = (), duration = fround binary64 (eV - s)\<rparr>,
             \<lparr>clocks = cV, user = uV,
              trace = trace w @
                [ClockRead (Finite s), CallableInvoked, CallableFinished,
                 ClockRead (Finite eV), SlotWrite Result_duration (fround binary64 (eV - s))]\<rparr>)"
    using time_void_run[where toTime = toTimeV and w = w and mpi = mpi, OF runV]
    unfolding s eV fsub_finite .
  show ?thesis
    using a b fround_binary64_error fround_exact by blast
qed

text \<open>C1 on the demo of main.cpp, from tick 1 000 000 000 of the steady clock: a task
  that returns 42 after two seconds, and a void task of 750 ms.\<close>

theorem time_measures_invocation_witness:
  "time_nonvoid False (ByValue Movable)
     (sleeping_task 2000000000 (42::int) :: (int, string, unit) callable) (world_at 1000000000) =
     Some (Returned \<lparr>functionResult = Object 42, duration = Finite 2\<rparr>,
           \<lparr>clocks = \<lparr>steady_now = 3000000000, mpi_wtime = Finite 0\<rparr>, user = (),
            trace = [ClockRead (Finite 1), CallableInvoked, CallableFinished,
                     ClockRead (Finite 3), SlotWrite Local_duration (Finite 2),
                     ResultInit MoveInit]\<rparr>)
   \<and> time_void False (sleeping_task 750000000 () :: (unit, string, unit) callable)
       (world_at 1000000000) =
     Some (Returned \<lparr>functionResult = (), duration = Finite (3 / 4)\<rparr>,
           \<lparr>clocks = \<lparr>steady_now = 1750000000, mpi_wtime = Finite 0\<rparr>, user = (),
            trace = [ClockRead (Finite 1), CallableInvoked, CallableFinished,
                     ClockRead (Finite (7 / 4)), SlotWrite Result_duration (Finite (3 / 4))]\<rparr>)
   \<and> \<bar>2 - (3 - 1 :: rat)\<bar> \<le> \<bar>3 - 1\<bar> * 2 powi (- 53) + 2 powi (- 1075)"
proof -
  have run: "(sleeping_task 2000000000 (42::int) :: (int, string, unit) callable)
               (clocks (world_at 1000000000), user (world_at 1000000000))
             = Some (Returned 42, \<lparr>steady_now = 3000000000, mpi_wtime = Finite 0\<rparr>, ())"
    by (simp add: sleeping_task_def world_at_def)
  have runV: "(sleeping_task 750000000 () :: (unit, string, unit) callable)
               (clocks (world_at 1000000000), user (world_at 1000000000))
             = Some (Returned (), \<lparr>steady_now = 1750000000, mpi_wtime = Finite 0\<rparr>, ())"
    by (simp add: sleeping_task_def world_at_def)
  have s: "read_time_point False (clocks (world_at 1000000000)) = Finite 1"
    by (simp add: read_time_point_def world_at_def time_point_1000000000)
  have e: "read_time_point False \<lparr>steady_now = 3000000000, mpi_wtime = Finite 0\<rparr> = Finite 3"
    by (simp add: read_time_point_def time_point_3000000000)
  have eV: "read_time_point False \<lparr>steady_now = 1750000000, mpi_wtime = Finite 0\<rparr>
            = Finite (7 / 4)"
    using time_point_1750000000 by (simp add: read_time_point_def)
  have d2: "fround binary64 (3 - 1) = Finite 2" using double_2 by simp
  have d34: "fround binary64 (7 / 4 - 1) = Finite (3 / 4)" using double_0_75 by simp
  show ?thesis
    using time_measures_invocation[where w = "world_at 1000000000" and mpi = False
        and rt = "ByValue Movable"
        and toTime = "sleeping_task 2000000000 (42::int) :: (int, string, unit) callable"
        and toTimeV = "sleeping_task 750000000 () :: (unit, string, unit) callable",
        OF run runV s e eV]
    unfolding d2 d34
    by (simp add: world_at_def record_init_def lambda_return_def init_from_xvalue_def)
qed

text \<open>
  Claim C6: if the callable raises during \<^verbatim>\<open>time(f)\<close>, the failure comes out of \<^verbatim>\<open>time\<close>
  unchanged and no measurement record comes out with it; before that, as the last thing
  \<^verbatim>\<open>time\<close> did, the Duration slot has been written with end minus start: the \<^verbatim>\<open>double\<close>
  nearest to the difference of the time point read after the failure and the one read
  before the callable was invoked.
\<close>

theorem failure_propagates:
  fixes toTime :: "('a, 'e, 'u) callable" and toTimeV :: "(unit, 'e, 'u) callable"
  assumes run: "toTime (clocks w, user w) = Some (Raised x, c, u)"
    and runV: "toTimeV (clocks w, user w) = Some (Raised xV, cV, uV)"
    and s: "read_time_point mpi (clocks w) = Finite s"
    and e: "read_time_point mpi c = Finite e"
    and eV: "read_time_point mpi cV = Finite eV"
  shows
    "time_nonvoid mpi rt toTime w =
       Some (Raised x,
             \<lparr>clocks = c, user = u,
              trace = trace w @
                [ClockRead (Finite s), CallableInvoked, CallableFinished,
                 ClockRead (Finite e), SlotWrite Local_duration (fround binary64 (e - s))]\<rparr>)
     \<and> time_void mpi toTimeV w =
       Some (Raised xV,
             \<lparr>clocks = cV, user = uV,
              trace = trace w @
                [ClockRead (Finite s), CallableInvoked, CallableFinished,
                 ClockRead (Finite eV), SlotWrite Result_duration (fround binary64 (eV - s))]\<rparr>)
     \<and> (\<forall>d. fround binary64 (e - s) = Finite d
            \<longrightarrow> \<bar>d - (e - s)\<bar> \<le> \<bar>e - s\<bar> * 2 powi (- 53) + 2 powi (- 1075))
     \<and> (\<forall>d. fround binary64 (eV - s) = Finite d
            \<longrightarrow> \<bar>d - (eV - s)\<bar> \<le> \<bar>eV - s\<bar> * 2 powi (- 53) + 2 powi (- 1075))
     \<and> (representable binary64 (e - s) \<longrightarrow> fround binary64 (e - s) = Finite (e - s))
     \<and> (representable binary64 (eV - s) \<longrightarrow> fround binary64 (eV - s) = Finite (eV - s))"
proof -
  have a: "time_nonvoid mpi rt toTime w =
       Some (Raised x,
             \<lparr>clocks = c, user = u,
              trace = trace w @
                [ClockRead (Finite s), CallableInvoked, CallableFinished,
                 ClockRead (Finite e), SlotWrite Local_duration (fround binary64 (e - s))]\<rparr>)"
    using time_nonvoid_run[where toTime = toTime and w = w and mpi = mpi and rt = rt, OF run]
    unfolding s e fsub_finite by simp
  have b: "time_void mpi toTimeV w =
       Some (Raised xV,
             \<lparr>clocks = cV, user = uV,
              trace = trace w @
                [ClockRead (Finite s), CallableInvoked, CallableFinished,
                 ClockRead (Finite eV), SlotWrite Result_duration (fround binary64 (eV - s))]\<rparr>)"
    using time_void_run[where toTime = toTimeV and w = w and mpi = mpi, OF runV]
    unfolding s eV fsub_finite by simp
  show ?thesis
    using a b fround_binary64_error fround_exact by blast
qed

text \<open>C6 from tick 1 000 000 000 of the steady clock, on a task that raises after two
  seconds, in both shapes: the slot holds 2 seconds.\<close>

theorem failure_propagates_witness:
  "time_nonvoid False (ByValue Movable)
     (failing_task 2000000000 ''boom'' :: (int, string, unit) callable) (world_at 1000000000) =
     Some (Raised ''boom'',
           \<lparr>clocks = \<lparr>steady_now = 3000000000, mpi_wtime = Finite 0\<rparr>, user = (),
            trace = [ClockRead (Finite 1), CallableInvoked, CallableFinished,
                     ClockRead (Finite 3), SlotWrite Local_duration (Finite 2)]\<rparr>)
   \<and> time_void False
     (failing_task 2000000000 ''boom'' :: (unit, string, unit) callable) (world_at 1000000000) =
     Some (Raised ''boom'',
           \<lparr>clocks = \<lparr>steady_now = 3000000000, mpi_wtime = Finite 0\<rparr>, user = (),
            trace = [ClockRead (Finite 1), CallableInvoked, CallableFinished,
                     ClockRead (Finite 3), SlotWrite Result_duration (Finite 2)]\<rparr>)
   \<and> \<bar>2 - (3 - 1 :: rat)\<bar> \<le> \<bar>3 - 1\<bar> * 2 powi (- 53) + 2 powi (- 1075)"
proof -
  have run: "(failing_task 2000000000 ''boom'' :: (int, string, unit) callable)
               (clocks (world_at 1000000000), user (world_at 1000000000))
             = Some (Raised ''boom'', \<lparr>steady_now = 3000000000, mpi_wtime = Finite 0\<rparr>, ())"
    by (simp add: failing_task_def world_at_def)
  have runV: "(failing_task 2000000000 ''boom'' :: (unit, string, unit) callable)
               (clocks (world_at 1000000000), user (world_at 1000000000))
             = Some (Raised ''boom'', \<lparr>steady_now = 3000000000, mpi_wtime = Finite 0\<rparr>, ())"
    by (simp add: failing_task_def world_at_def)
  have s: "read_time_point False (clocks (world_at 1000000000)) = Finite 1"
    by (simp add: read_time_point_def world_at_def time_point_1000000000)
  have e: "read_time_point False \<lparr>steady_now = 3000000000, mpi_wtime = Finite 0\<rparr> = Finite 3"
    by (simp add: read_time_point_def time_point_3000000000)
  have d2: "fround binary64 (3 - 1) = Finite 2" using double_2 by simp
  show ?thesis
    using failure_propagates[where w = "world_at 1000000000" and mpi = False
        and rt = "ByValue Movable"
        and toTime = "failing_task 2000000000 ''boom'' :: (int, string, unit) callable"
        and toTimeV = "failing_task 2000000000 ''boom'' :: (unit, string, unit) callable",
        OF run runV s e e]
    unfolding d2
    by (simp add: world_at_def)
qed


text \<open>
  For a result type that is not a reference, the record holds the very value the one
  measured invocation returned, put there by a move when the type has a move
  constructor and by a copy otherwise.
\<close>

lemma captured_by_value:
  fixes toTime :: "('a, 'e, 'u) callable"
  assumes run: "toTime (clocks w, user w) = Some (Returned v, c, u)"
  shows
    "\<exists>d. time_nonvoid mpi (ByValue ms) toTime w =
       Some (Returned \<lparr>functionResult = Object v, duration = d\<rparr>,
             \<lparr>clocks = c, user = u,
              trace = trace w @
                [ClockRead (read_time_point mpi (clocks w)), CallableInvoked, CallableFinished,
                 ClockRead (read_time_point mpi c), SlotWrite Local_duration d,
                 ResultInit (case ms of Movable \<Rightarrow> MoveInit | CopyOnly \<Rightarrow> CopyInit)]\<rparr>)"
  using time_nonvoid_run[where toTime = toTime and w = w and mpi = mpi and rt = "ByValue ms",
      OF run]
  by (simp add: init_from_xvalue_def record_init_def lambda_return_def)

text \<open>
  Claim C7 says that for every value-returning callable the record returned by
  \<^verbatim>\<open>time(f)\<close> carries the value \<open>f\<close> returned. The value-returning overload also takes a
  callable whose result type is \<^verbatim>\<open>const T &\<close> or \<^verbatim>\<open>T &&\<close>, and there it fails: for a
  callable that returns a reference to 42 after one second, the value is copied (or
  moved) into a temporary of \<^verbatim>\<open>time\<close>, and \<^verbatim>\<open>functionResult\<close> of the returned record
  refers to that temporary, which no longer exists; the record holds no 42.
\<close>

theorem reference_result_dangles:
  "time_nonvoid False ConstReference
     (sleeping_task 1000000000 (42::int) :: (int, string, unit) callable) (world_at 0) =
     Some (Returned \<lparr>functionResult = DanglingReference, duration = Finite 1\<rparr>,
           \<lparr>clocks = \<lparr>steady_now = 1000000000, mpi_wtime = Finite 0\<rparr>, user = (),
            trace = [ClockRead (Finite 0), CallableInvoked, CallableFinished,
                     TemporaryInit CopyInit,
                     ClockRead (Finite 1), SlotWrite Local_duration (Finite 1)]\<rparr>)
   \<and> time_nonvoid False RvalueReference
     (sleeping_task 1000000000 (42::int) :: (int, string, unit) callable) (world_at 0) =
     Some (Returned \<lparr>functionResult = DanglingReference, duration = Finite 1\<rparr>,
           \<lparr>clocks = \<lparr>steady_now = 1000000000, mpi_wtime = Finite 0\<rparr>, user = (),
            trace = [ClockRead (Finite 0), CallableInvoked, CallableFinished,
                     TemporaryInit MoveInit,
                     ClockRead (Finite 1), SlotWrite Local_duration (Finite 1)]\<rparr>)
   \<and> DanglingReference \<noteq> Object (42::int)"
proof -
  have run: "(sleeping_task 1000000000 (42::int) :: (int, string, unit) callable)
               (clocks (world_at 0), user (world_at 0))
             = Some (Returned 42, \<lparr>steady_now = 1000000000, mpi_wtime = Finite 0\<rparr>, ())"
    by (simp add: sleeping_task_def world_at_def)
  have sub: "fsub (Finite 1) (Finite 0) = Finite 1"
    using double_2 fround_nearI[where f = binary64 and e = 0 and m = "2 ^ 52" and x = 1]
    by (simp add: fsub_def binary64_def max_finite_def)
  show ?thesis
    using time_nonvoid_run[where w = "world_at 0" and mpi = False and rt = ConstReference
        and toTime = "sleeping_task 1000000000 (42::int) :: (int, string, unit) callable",
        OF run]
      time_nonvoid_run[where w = "world_at 0" and mpi = False and rt = RvalueReference
        and toTime = "sleeping_task 1000000000 (42::int) :: (int, string, unit) callable",
        OF run]
      time_point_0 time_point_1000000000 sub
    by (simp add: world_at_def read_time_point_def record_init_def lambda_return_def)
qed

section \<open>Who can create or copy a \<^verbatim>\<open>Timer\<close>\<close>

lemma Timer_copy_ctor: "copy_ctor Timer_class = (Public, Defaulted)"
  by (simp add: copy_ctor_def Timer_class_def user_declares_def)

lemma Timer_move_ctor: "move_ctor Timer_class = None"
  by (simp add: move_ctor_def Timer_class_def user_declares_def)

text \<open>
  Claim C8, as stated: \<^verbatim>\<open>Timer\<close> is neither copyable nor movable. The class declares
  only a destructor and the private constructor, so its copy constructor is the implicit
  public one: code outside the two \<^verbatim>\<open>time\<close> overloads may copy a \<^verbatim>\<open>Timer\<close>, and may
  initialise one from an rvalue through that copy constructor.
\<close>

theorem timer_not_copyable_counterexample:
  "''main'' \<notin> set (friends Timer_class)
   \<and> can_copy Timer_class ''main'' \<and> can_move_construct Timer_class ''main''"
  by (simp add: can_copy_def can_move_construct_def usable_def accessible_def
      Timer_copy_ctor Timer_move_ctor)
     (simp add: Timer_class_def)

text \<open>
  Claim C8, amended: the only constructor of \<^verbatim>\<open>Timer\<close> that creates one from a Duration
  slot is private and the two overloads of \<^verbatim>\<open>time\<close> are the only friends, so no other
  code can construct a \<^verbatim>\<open>Timer\<close> from scratch; \<^verbatim>\<open>Timer\<close> has no move constructor (its
  user-declared destructor suppresses the implicit one), but its copy constructor is the
  implicit, public, defaulted one, so the class itself does not forbid copying.
\<close>

theorem timer_construction_is_private:
  "(can_construct Timer_class who ''Duration *'' \<longleftrightarrow>
      who = ''NonVoidTimeResult<FuncToTime> time(FuncToTime)''
      \<or> who = ''VoidTimeResult<FuncToTime> time(FuncToTime)'')
   \<and> (params \<noteq> ''Duration *'' \<longrightarrow> \<not> can_construct Timer_class who params)
   \<and> move_ctor Timer_class = None
   \<and> copy_ctor Timer_class = (Public, Defaulted)
   \<and> can_copy Timer_class who"
  by (simp add: Timer_copy_ctor Timer_move_ctor can_copy_def usable_def accessible_def)
     (auto simp: can_construct_def accessible_def Timer_class_def)

text \<open>C8 for code in \<^verbatim>\<open>main\<close> and for the void overload of \<^verbatim>\<open>time\<close>.\<close>

theorem timer_construction_is_private_witness:
  "\<not> can_construct Timer_class ''main'' ''Duration *''
   \<and> can_construct Timer_class ''VoidTimeResult<FuncToTime> time(FuncToTime)'' ''Duration *''
   \<and> ''Duration *, int'' \<noteq> ''Duration *''
   \<and> \<not> can_construct Timer_class ''main'' ''Duration *, int''
   \<and> can_copy Timer_class ''main''"
  using timer_construction_is_private[of "''main''" "''Duration *, int''"]
    timer_construction_is_private[of "''VoidTimeResult<FuncToTime> time(FuncToTime)''" "''Duration *''"]
  by simp

section \<open>The extraction \<^verbatim>\<open>as<Rep>()\<close>\<close>




section \<open>Precision-preserving views\<close>

lemma view_as_double:
  assumes "rep U = RepDouble"
  shows "view_as U (FloatingT TDouble) r
         = Inr (VFloating TDouble (in_unit U (TimeResult.duration r)))"
  using assms
  by (simp add: view_as_def getDurationView_def getDuration_def duration_cast_def as_def
      static_cast_floating_def)

lemma in_unit_error:
  assumes U: "U \<in> set precision_preserving_catalogue \<union> set integer_tick_catalogue"
    and v: "in_unit U (Finite d) = Finite v"
  shows "\<bar>v * scale U - d\<bar> \<le> \<bar>d\<bar> * 2 powi (- 53) + scale U * 2 powi (- 1075)"
proof -
  define s where "s = scale U"
  have s: "0 < s" unfolding s_def by (rule in_unit_catalogue(1)[OF U])
  have eq: "Finite v = (if s = 1 then Finite d else fround binary64 (d / s))"
    unfolding s_def using in_unit_catalogue(2)[OF U, of d] v by simp
  show ?thesis
  proof (cases "s = 1")
    case True
    then have "v = d" using eq by simp
    then show ?thesis unfolding s_def[symmetric] using True by simp
  next
    case False
    then have "fround binary64 (d / s) = Finite v" using eq by simp
    from fround_error_abs[OF this]
    have e: "\<bar>v - d / s\<bar> \<le> \<bar>d / s\<bar> * 2 powi (- 53) + 2 powi (- 1075)"
      by (simp add: binary64_def)
    have "v * s - d = (v - d / s) * s" using s by (simp add: algebra_simps)
    then have "\<bar>v * s - d\<bar> = \<bar>v - d / s\<bar> * s" using s by (simp add: abs_mult)
    also have "\<dots> \<le> (\<bar>d / s\<bar> * 2 powi (- 53) + 2 powi (- 1075)) * s"
      using e s by (intro mult_right_mono) simp_all
    also have "\<dots> = \<bar>d\<bar> * 2 powi (- 53) + s * 2 powi (- 1075)"
      using s by (simp add: algebra_simps abs_divide)
    finally show ?thesis unfolding s_def .
  qed
qed

text \<open>
  Claim C9: for every Duration \<open>D\<close> and units \<open>U\<^sub>1\<close>, \<open>U\<^sub>2\<close> of the precision-preserving
  catalogue, \<^verbatim>\<open>getDurationView<U1>().as<double>()\<close> times \<open>scale U\<^sub>1\<close> equals
  \<^verbatim>\<open>getDurationView<U2>().as<double>()\<close> times \<open>scale U\<^sub>2\<close> up to a bounded round-off:
  whenever both views are finite, the two products differ by at most
  \<open>\<bar>D\<bar> \<cdot> 2\<^sup>-\<^sup>5\<^sup>2 + (scale U\<^sub>1 + scale U\<^sub>2) \<cdot> 2\<^sup>-\<^sup>1\<^sup>0\<^sup>7\<^sup>5\<close>.
\<close>

theorem cross_unit_consistency:
  assumes U1: "U1 \<in> set precision_preserving_catalogue"
    and U2: "U2 \<in> set precision_preserving_catalogue"
    and d: "TimeResult.duration r = Finite d"
    and v1: "view_as U1 (FloatingT TDouble) r = Inr (VFloating TDouble (Finite v1))"
    and v2: "view_as U2 (FloatingT TDouble) r = Inr (VFloating TDouble (Finite v2))"
  shows "\<bar>v1 * scale U1 - v2 * scale U2\<bar>
         \<le> \<bar>d\<bar> * 2 powi (- 52) + (scale U1 + scale U2) * 2 powi (- 1075)"
proof -
  have i1: "in_unit U1 (Finite d) = Finite v1"
    using v1 unfolding view_as_double[OF precision_preserving_rep[OF U1]] d by simp
  have i2: "in_unit U2 (Finite d) = Finite v2"
    using v2 unfolding view_as_double[OF precision_preserving_rep[OF U2]] d by simp
  have c1: "U1 \<in> set precision_preserving_catalogue \<union> set integer_tick_catalogue"
    using U1 by simp
  have c2: "U2 \<in> set precision_preserving_catalogue \<union> set integer_tick_catalogue"
    using U2 by simp
  note e1 = in_unit_error[OF c1 i1] and e2 = in_unit_error[OF c2 i2]
  have "\<bar>v1 * scale U1 - v2 * scale U2\<bar>
        \<le> \<bar>v1 * scale U1 - d\<bar> + \<bar>v2 * scale U2 - d\<bar>" by linarith
  also have "\<dots> \<le> (\<bar>d\<bar> * 2 powi (- 53) + scale U1 * 2 powi (- 1075))
                  + (\<bar>d\<bar> * 2 powi (- 53) + scale U2 * 2 powi (- 1075))"
    using e1 e2 by linarith
  also have "\<dots> = \<bar>d\<bar> * (2 * 2 powi (- 53)) + (scale U1 + scale U2) * 2 powi (- 1075)"
    by (simp add: algebra_simps)
  also have "2 * (2::rat) powi (- 53) = 2 powi (- 52)" by simp
  finally show ?thesis .
qed


lemma double_750: "fround binary64 (3 / 4 * 1000) = Finite 750"
  using fround_nearI[where f = binary64 and e = 9 and m = "750 * 2 ^ 43" and x = "3 / 4 * 1000"]
  by (simp add: binary64_def max_finite_def)

lemma double_750ms_in_hours:
  "fround binary64 (3 / 4 / 3600) = Finite (7686143364045647 / 2 ^ 65)"
  using fround_nearI[where f = binary64 and e = "- 13" and m = 7686143364045647
      and x = "3 / 4 / 3600"]
  by (simp add: binary64_def max_finite_def)

text \<open>C9 on 750 ms, viewed in \<^verbatim>\<open>timer::milliseconds\<close> and in \<^verbatim>\<open>timer::hours\<close>.\<close>

theorem cross_unit_consistency_witness:
  "milliseconds \<in> set precision_preserving_catalogue
   \<and> hours \<in> set precision_preserving_catalogue
   \<and> view_as milliseconds (FloatingT TDouble) \<lparr>functionResult = (), duration = Finite (3 / 4)\<rparr>
       = Inr (VFloating TDouble (Finite 750))
   \<and> view_as hours (FloatingT TDouble) \<lparr>functionResult = (), duration = Finite (3 / 4)\<rparr>
       = Inr (VFloating TDouble (Finite (7686143364045647 / 2 ^ 65)))
   \<and> \<bar>750 * scale milliseconds - 7686143364045647 / 2 ^ 65 * scale hours\<bar>
       \<le> \<bar>3 / 4\<bar> * 2 powi (- 52) + (scale milliseconds + scale hours) * 2 powi (- 1075)"
proof -
  have U1: "milliseconds \<in> set precision_preserving_catalogue"
    and U2: "hours \<in> set precision_preserving_catalogue"
    by (simp_all add: precision_preserving_catalogue_def)
  have d: "TimeResult.duration \<lparr>functionResult = (), duration = Finite (3 / 4)\<rparr> = Finite (3 / 4)"
    by simp
  have v1: "view_as milliseconds (FloatingT TDouble) \<lparr>functionResult = (), duration = Finite (3 / 4)\<rparr>
            = Inr (VFloating TDouble (Finite 750))"
    unfolding view_as_double[OF precision_preserving_rep[OF U1]] d in_unit_milliseconds
    using double_750 by simp
  have v2: "view_as hours (FloatingT TDouble) \<lparr>functionResult = (), duration = Finite (3 / 4)\<rparr>
            = Inr (VFloating TDouble (Finite (7686143364045647 / 2 ^ 65)))"
    unfolding view_as_double[OF precision_preserving_rep[OF U2]] d in_unit_hours
    using double_750ms_in_hours by simp
  from cross_unit_consistency[OF U1 U2 d v1 v2] U1 U2 v1 v2 show ?thesis by blast
qed

end
